theory Spec2Isabelle
  imports Complex_Main "HOL-Library.AList"
begin

section \<open>Python strings\<close>

text \<open>
  The translator of \<^verbatim>\<open>src/app/nl_to_mongo.py\<close> works on Python strings. A string is
  modelled as a \<open>char list\<close>, a \<open>char\<close> being a code point below 256; the character
  classes of \<^verbatim>\<open>str.lower\<close>, \<^verbatim>\<open>str.strip\<close> and of the \<^verbatim>\<open>re\<close> module (on \<^verbatim>\<open>str\<close>
  patterns: \<^verbatim>\<open>\s\<close>, \<^verbatim>\<open>\d\<close>, \<^verbatim>\<open>\w\<close>) are written out for that range. A text with a code
  point above 255 has no counterpart here.
\<close>

definition code :: "char \<Rightarrow> nat" where
  "code c = of_char c"

definition is_space :: "char \<Rightarrow> bool" where
  \<comment> \<open>\<^verbatim>\<open>str.isspace\<close> and \<^verbatim>\<open>\s\<close>: also U+0085 and U+00A0\<close>
  "is_space c = ((9 \<le> code c \<and> code c \<le> 13) \<or> (28 \<le> code c \<and> code c \<le> 32)
                  \<or> code c = 133 \<or> code c = 160)"

definition is_digit :: "char \<Rightarrow> bool" where
  "is_digit c = (48 \<le> code c \<and> code c \<le> 57)"

definition is_upper :: "char \<Rightarrow> bool" where
  "is_upper c = (65 \<le> code c \<and> code c \<le> 90)"

definition is_lower :: "char \<Rightarrow> bool" where
  "is_lower c = (97 \<le> code c \<and> code c \<le> 122)"

definition latin1_word :: "char \<Rightarrow> bool" where
  \<comment> \<open>the alphanumeric code points from 128 to 255\<close>
  "latin1_word c =
     (170 \<le> code c \<and>
      (code c = 170 \<or> code c = 178 \<or> code c = 179 \<or> code c = 181 \<or> code c = 185
       \<or> code c = 186 \<or> (188 \<le> code c \<and> code c \<le> 190) \<or> (192 \<le> code c \<and> code c \<le> 214)
       \<or> (216 \<le> code c \<and> code c \<le> 246) \<or> 248 \<le> code c))"

definition is_word :: "char \<Rightarrow> bool" where
  \<comment> \<open>the class \<^verbatim>\<open>\w\<close>\<close>
  "is_word c = (is_upper c \<or> is_lower c \<or> is_digit c \<or> c = CHR ''_'' \<or> latin1_word c)"

definition latin1_upper :: "char \<Rightarrow> bool" where
  \<comment> \<open>the capital letters from 128 to 255, each 32 below its small letter\<close>
  "latin1_upper c = (192 \<le> code c \<and> code c \<le> 222 \<and> code c \<noteq> 215)"

definition lower_char :: "char \<Rightarrow> char" where
  "lower_char c = (if is_upper c \<or> latin1_upper c then char_of (code c + 32) else c)"

definition upper_char :: "char \<Rightarrow> char" where
  \<comment> \<open>used for \<^verbatim>\<open>re.IGNORECASE\<close> against the sets of the patterns, which are ASCII\<close>
  "upper_char c = (if is_lower c then char_of (code c - 32) else c)"

definition lower :: "string \<Rightarrow> string" where
  \<comment> \<open>\<^verbatim>\<open>s.lower()\<close>\<close>
  "lower s = map lower_char s"

definition strip :: "string \<Rightarrow> string" where
  \<comment> \<open>\<^verbatim>\<open>s.strip()\<close>\<close>
  "strip s = rev (dropWhile is_space (rev (dropWhile is_space s)))"

fun starts_with :: "string \<Rightarrow> string \<Rightarrow> bool" where
  "starts_with [] s = True"
| "starts_with (k # ks) [] = False"
| "starts_with (k # ks) (c # cs) = (k = c \<and> starts_with ks cs)"

fun contains :: "string \<Rightarrow> string \<Rightarrow> bool" where
  \<comment> \<open>\<^verbatim>\<open>kw in s\<close>, written \<open>contains s kw\<close>\<close>
  "contains [] kw = (kw = [])"
| "contains (c # cs) kw = (starts_with kw (c # cs) \<or> contains cs kw)"

definition truthy :: "string option \<Rightarrow> bool" where
  \<comment> \<open>Python truth value of a value that is \<^verbatim>\<open>None\<close> or a string\<close>
  "truthy v = (case v of None \<Rightarrow> False | Some s \<Rightarrow> s \<noteq> [])"

definition py_or :: "string option \<Rightarrow> string option \<Rightarrow> string option" where
  \<comment> \<open>\<^verbatim>\<open>a or b\<close>\<close>
  "py_or a b = (if truthy a then a else b)"

section \<open>The regular expressions of the module\<close>

text \<open>
  The patterns of the module use literals, character sets, bounded and unbounded
  repetition of a character set (greedy, and lazy in \<^verbatim>\<open>+?\<close>), optional groups,
  alternation, capture groups, \<^verbatim>\<open>\b\<close> and \<^verbatim>\<open>$\<close>. \<open>rmatch\<close> returns every way a
  pattern matches at the current position, in the order in which the backtracking
  matcher of \<^verbatim>\<open>re\<close> tries them; the head of the list is the match \<^verbatim>\<open>re\<close> reports.
\<close>

datatype citem = Ch char | Rng char char | DigitC | SpaceC

datatype regex =
    Lit string
  | Set "citem list"
  | Rep bool "citem list" nat "nat option"
  | Opt regex
  | Seq regex regex
  | Alt regex regex
  | Grp nat regex
  | WordB
  | Eos

record mstate =
  prev :: "char option"
  rest :: string
  caps :: "(nat \<times> string) list"

fun item_has :: "citem \<Rightarrow> char \<Rightarrow> bool" where
  "item_has (Ch a) c = (c = a)"
| "item_has (Rng a b) c = (code a \<le> code c \<and> code c \<le> code b)"
| "item_has DigitC c = is_digit c"
| "item_has SpaceC c = is_space c"

definition in_set :: "bool \<Rightarrow> citem list \<Rightarrow> char \<Rightarrow> bool" where
  \<comment> \<open>the flag is \<^verbatim>\<open>re.IGNORECASE\<close>\<close>
  "in_set ic items c =
     (if ic
      then (let l = lower_char c; u = upper_char c
            in list_ex (\<lambda>i. item_has i l \<or> item_has i u) items)
      else list_ex (\<lambda>i. item_has i c) items)"

fun lit_prefix :: "bool \<Rightarrow> string \<Rightarrow> string \<Rightarrow> bool" where
  "lit_prefix ic [] s = True"
| "lit_prefix ic (k # ks) [] = False"
| "lit_prefix ic (k # ks) (c # cs) =
     ((if ic then lower_char k = lower_char c else k = c) \<and> lit_prefix ic ks cs)"

fun advance :: "nat \<Rightarrow> mstate \<Rightarrow> mstate" where
  "advance 0 st = st"
| "advance (Suc k) st =
     (case rest st of [] \<Rightarrow> st
      | c # cs \<Rightarrow> advance k (st\<lparr>prev := Some c, rest := cs\<rparr>))"

definition at_boundary :: "mstate \<Rightarrow> bool" where
  "at_boundary st =
     ((case prev st of None \<Rightarrow> False | Some c \<Rightarrow> is_word c)
        \<noteq> (case rest st of [] \<Rightarrow> False | c # _ \<Rightarrow> is_word c))"

definition at_end :: "mstate \<Rightarrow> bool" where
  \<comment> \<open>\<^verbatim>\<open>$\<close> without \<^verbatim>\<open>re.MULTILINE\<close>: the end, or just before a final newline\<close>
  "at_end st = (rest st = [] \<or> rest st = [CHR 0x0A])"

fun rmatch :: "bool \<Rightarrow> regex \<Rightarrow> mstate \<Rightarrow> mstate list" where
  "rmatch ic (Lit s) st = (if lit_prefix ic s (rest st) then [advance (length s) st] else [])"
| "rmatch ic (Set items) st =
     (case rest st of [] \<Rightarrow> []
      | c # _ \<Rightarrow> if in_set ic items c then [advance 1 st] else [])"
| "rmatch ic (Rep greedy items lo hi) st =
     (let n = length (takeWhile (in_set ic items) (rest st));
          m = (case hi of None \<Rightarrow> n | Some h \<Rightarrow> min n h);
          ks = (if greedy then rev [lo ..< Suc m] else [lo ..< Suc m])
      in map (\<lambda>k. advance k st) ks)"
| "rmatch ic (Opt r) st = rmatch ic r st @ [st]"
| "rmatch ic (Seq r1 r2) st = concat (map (rmatch ic r2) (rmatch ic r1 st))"
| "rmatch ic (Alt r1 r2) st = rmatch ic r1 st @ rmatch ic r2 st"
| "rmatch ic (Grp n r) st =
     map (\<lambda>st'. st'\<lparr>caps := (n, take (length (rest st) - length (rest st')) (rest st)) # caps st'\<rparr>)
       (rmatch ic r st)"
| "rmatch ic WordB st = (if at_boundary st then [st] else [])"
| "rmatch ic Eos st = (if at_end st then [st] else [])"

definition cat :: "regex list \<Rightarrow> regex" where
  "cat rs = foldr Seq rs (Lit [])"

definition alts :: "regex list \<Rightarrow> regex" where
  "alts rs = foldr Alt (butlast rs) (last rs)"

fun search_from :: "bool \<Rightarrow> regex \<Rightarrow> char option \<Rightarrow> string \<Rightarrow> mstate option" where
  "search_from ic r p [] =
     (case rmatch ic r \<lparr>prev = p, rest = [], caps = []\<rparr> of [] \<Rightarrow> None | st # _ \<Rightarrow> Some st)"
| "search_from ic r p (c # cs) =
     (case rmatch ic r \<lparr>prev = p, rest = c # cs, caps = []\<rparr> of
        [] \<Rightarrow> search_from ic r (Some c) cs
      | st # _ \<Rightarrow> Some st)"

definition re_search :: "bool \<Rightarrow> regex \<Rightarrow> string \<Rightarrow> mstate option" where
  \<comment> \<open>\<^verbatim>\<open>re.search(pattern, s, flags)\<close>: the leftmost match, or \<open>None\<close>\<close>
  "re_search ic r s = search_from ic r None s"

definition m_group :: "mstate \<Rightarrow> nat \<Rightarrow> string" where
  \<comment> \<open>\<^verbatim>\<open>m.group(n)\<close> of a group that took part in the match\<close>
  "m_group st n = (case map_of (caps st) n of None \<Rightarrow> [] | Some s \<Rightarrow> s)"

fun finditer_from :: "bool \<Rightarrow> regex \<Rightarrow> char option \<Rightarrow> string \<Rightarrow> nat \<Rightarrow> mstate list" where
  "finditer_from ic r p [] skip =
     (if 0 < skip then []
      else case rmatch ic r \<lparr>prev = p, rest = [], caps = []\<rparr> of [] \<Rightarrow> [] | st # _ \<Rightarrow> [st])"
| "finditer_from ic r p (c # cs) skip =
     (if 0 < skip then finditer_from ic r (Some c) cs (skip - 1)
      else case rmatch ic r \<lparr>prev = p, rest = c # cs, caps = []\<rparr> of
             [] \<Rightarrow> finditer_from ic r (Some c) cs 0
           | st # _ \<Rightarrow> st # finditer_from ic r (Some c) cs (length cs - length (rest st)))"

definition re_finditer :: "bool \<Rightarrow> regex \<Rightarrow> string \<Rightarrow> mstate list" where
  \<comment> \<open>\<^verbatim>\<open>re.finditer(pattern, s)\<close>: the non-overlapping matches from left to right\<close>
  "re_finditer ic r s = finditer_from ic r None s 0"

section \<open>Resolving roles to columns\<close>

definition COST_KEYWORDS :: "string list" where
  "COST_KEYWORDS =
     [''discount'', ''discounted cost'', ''published cost'', ''published'',
      ''marked up'', ''marked'', ''cost'', ''amount'', ''charge'', ''price'', ''freight'']"

definition DATE_FIELD_HINTS :: "string list" where
  "DATE_FIELD_HINTS = [''ship date'', ''ship'', ''created'', ''date'', ''delivered'', ''etd'']"

definition STATUS_FIELD_HINTS :: "string list" where
  "STATUS_FIELD_HINTS = [''status'', ''delivery status'', ''shipment type'']"

fun find_field :: "string list \<Rightarrow> string list \<Rightarrow> string option" where
  "find_field columns [] = None"
| "find_field columns (kw # keywords) =
     (case find (\<lambda>c. contains (lower c) (lower kw)) columns of
        Some c \<Rightarrow> Some c
      | None \<Rightarrow> find_field columns keywords)"

fun cost_by_keyword :: "string list \<Rightarrow> string list \<Rightarrow> string option" where
  \<comment> \<open>the first loop of \<^verbatim>\<open>detect_cost_field\<close>\<close>
  "cost_by_keyword columns [] = None"
| "cost_by_keyword columns (kw # kws) =
     (let f = find_field columns [kw]
      in if truthy f then f else cost_by_keyword columns kws)"

definition detect_cost_field :: "string list \<Rightarrow> string option" where
  "detect_cost_field columns =
     (case cost_by_keyword columns COST_KEYWORDS of
        Some f \<Rightarrow> Some f
      | None \<Rightarrow>
          find (\<lambda>c. contains (lower c) ''cost'' \<or> contains (lower c) ''amount''
                    \<or> contains (lower c) ''charge'' \<or> contains (lower c) ''price'') columns)"

definition detect_date_field :: "string list \<Rightarrow> string option" where
  "detect_date_field columns = find_field columns DATE_FIELD_HINTS"

definition detect_status_field :: "string list \<Rightarrow> string option" where
  "detect_status_field columns = find_field columns STATUS_FIELD_HINTS"

section \<open>Dates and times\<close>

text \<open>
  \<^verbatim>\<open>datetime\<close> values, with the calendar arithmetic of CPython's \<^verbatim>\<open>datetime\<close> module
  (proleptic Gregorian ordinals, day 1 being 0001-01-01). \<open>tzinfo\<close> is carried along
  unchanged by \<^verbatim>\<open>replace\<close> and by adding a \<^verbatim>\<open>timedelta\<close>; in Asia/Kolkata the wall
  clock has no transitions, and Python adds a \<^verbatim>\<open>timedelta\<close> on the wall clock anyway.
\<close>

datatype py_error = ValueError | OverflowError

record datetime =
  year :: int
  month :: int
  day :: int
  hour :: int
  minute :: int
  second :: int
  microsecond :: int
  tzinfo :: "string option"

definition is_leap :: "int \<Rightarrow> bool" where
  "is_leap y = (y mod 4 = 0 \<and> (y mod 100 \<noteq> 0 \<or> y mod 400 = 0))"

definition days_before_year :: "int \<Rightarrow> int" where
  "days_before_year y = (y - 1) * 365 + (y - 1) div 4 - (y - 1) div 100 + (y - 1) div 400"

definition days_in_month :: "int \<Rightarrow> int \<Rightarrow> int" where
  "days_in_month y m =
     (if m = 2 then (if is_leap y then 29 else 28)
      else if m = 4 \<or> m = 6 \<or> m = 9 \<or> m = 11 then 30 else 31)"

definition DAYS_BEFORE_MONTH :: "int \<Rightarrow> int" where
  "DAYS_BEFORE_MONTH m =
     (if m = 1 then 0 else if m = 2 then 31 else if m = 3 then 59 else if m = 4 then 90
      else if m = 5 then 120 else if m = 6 then 151 else if m = 7 then 181
      else if m = 8 then 212 else if m = 9 then 243 else if m = 10 then 273
      else if m = 11 then 304 else 334)"

definition days_before_month :: "int \<Rightarrow> int \<Rightarrow> int" where
  "days_before_month y m = DAYS_BEFORE_MONTH m + (if 2 < m \<and> is_leap y then 1 else 0)"

definition ymd2ord :: "int \<Rightarrow> int \<Rightarrow> int \<Rightarrow> int" where
  "ymd2ord y m d = days_before_year y + days_before_month y m + d"

definition ord2ymd :: "int \<Rightarrow> int \<times> int \<times> int" where
  "ord2ymd n0 =
     (let n = n0 - 1;
          n400 = n div 146097; n = n mod 146097;
          n100 = n div 36524; n = n mod 36524;
          n4 = n div 1461; n = n mod 1461;
          n1 = n div 365; n = n mod 365;
          y = n400 * 400 + 1 + n100 * 100 + n4 * 4 + n1
      in if n1 = 4 \<or> n100 = 4 then (y - 1, 12, 31)
         else
           let leapyear = (n1 = 3 \<and> (n4 \<noteq> 24 \<or> n100 = 3));
               m = (n + 50) div 32;
               preceding = DAYS_BEFORE_MONTH m + (if 2 < m \<and> leapyear then 1 else 0)
           in if n < preceding
              then let m' = m - 1;
                       preceding' = preceding
                         - ((if m' = 2 then 28 else if m' = 4 \<or> m' = 6 \<or> m' = 9 \<or> m' = 11 then 30 else 31)
                            + (if m' = 2 \<and> leapyear then 1 else 0))
                   in (y, m', n - preceding' + 1)
              else (y, m, n - preceding + 1))"

definition toordinal :: "datetime \<Rightarrow> int" where
  "toordinal t = ymd2ord (year t) (month t) (day t)"

definition weekday :: "datetime \<Rightarrow> int" where
  \<comment> \<open>Monday is 0\<close>
  "weekday t = (toordinal t + 6) mod 7"

definition MAXORDINAL :: int where
  "MAXORDINAL = 3652059"

definition timedelta_days :: "int \<Rightarrow> py_error + int" where
  \<comment> \<open>\<^verbatim>\<open>timedelta(days=n)\<close>\<close>
  "timedelta_days n = (if 999999999 < abs n then Inl OverflowError else Inr n)"

definition add_days :: "datetime \<Rightarrow> int \<Rightarrow> py_error + datetime" where
  \<comment> \<open>\<^verbatim>\<open>t + timedelta(days=n)\<close>, for a \<^verbatim>\<open>timedelta\<close> already built\<close>
  "add_days t n =
     (let ordinal = toordinal t + n
      in if 0 < ordinal \<and> ordinal \<le> MAXORDINAL
         then (case ord2ymd ordinal of (y, m, d) \<Rightarrow> Inr (t\<lparr>year := y, month := m, day := d\<rparr>))
         else Inl OverflowError)"

definition midnight :: "datetime \<Rightarrow> datetime" where
  \<comment> \<open>\<^verbatim>\<open>t.replace(hour=0, minute=0, second=0, microsecond=0)\<close>\<close>
  "midnight t = t\<lparr>hour := 0, minute := 0, second := 0, microsecond := 0\<rparr>"

definition replace_year :: "datetime \<Rightarrow> int \<Rightarrow> py_error + datetime" where
  \<comment> \<open>\<^verbatim>\<open>t.replace(year=y)\<close>: the new date is checked\<close>
  "replace_year t y =
     (if 1 \<le> y \<and> y \<le> 9999 \<and> 1 \<le> day t \<and> day t \<le> days_in_month y (month t)
      then Inr (t\<lparr>year := y\<rparr>) else Inl ValueError)"

section \<open>Parsing numbers and dates\<close>

definition digits_val :: "string \<Rightarrow> int" where
  "digits_val s = foldl (\<lambda>a c. 10 * a + (int (code c) - 48)) 0 s"

definition py_int :: "string \<Rightarrow> py_error + int" where
  \<comment> \<open>\<^verbatim>\<open>int(s)\<close> on a string matched by \<^verbatim>\<open>\d+\<close>; CPython refuses more than 4300 digits\<close>
  "py_int s = (if 4300 < length s then Inl ValueError else Inr (digits_val s))"

definition py_float :: "string \<Rightarrow> py_error + rat" where
  \<comment> \<open>\<^verbatim>\<open>float(s)\<close> on a string of digits and dots: one dot at most and a digit at least.
      The value kept is the decimal number written. Python rounds it to the nearest
      binary64 (and to \<^verbatim>\<open>inf\<close> beyond the range): integers below \<open>2 ^ 53\<close> are exact, and
      no statement below depends on the value of a number that is not.\<close>
  "py_float s =
     (let ip = takeWhile is_digit s; r = dropWhile is_digit s
      in case r of
           [] \<Rightarrow> (if ip = [] then Inl ValueError else Inr (of_int (digits_val ip)))
         | c # fp \<Rightarrow>
             (if c = CHR ''.'' \<and> list_all is_digit fp \<and> (ip \<noteq> [] \<or> fp \<noteq> [])
              then Inr (of_int (digits_val ip) + of_int (digits_val fp) / 10 ^ length fp)
              else Inl ValueError))"

definition dateparser_parse :: "string \<Rightarrow> py_error + datetime" where
  \<comment> \<open>\<^verbatim>\<open>dateutil.parser.parse\<close> on the only strings that reach it, of the shape
      \<^verbatim>\<open>dddd-dd-dd\<close>: year, month, day in this order, a naive \<^verbatim>\<open>datetime\<close> at midnight,
      and \<^verbatim>\<open>ParserError\<close> (a \<^verbatim>\<open>ValueError\<close>) when this is no date of the calendar.\<close>
  "dateparser_parse s =
     (let y = digits_val (take 4 s); m = digits_val (take 2 (drop 5 s));
          d = digits_val (take 2 (drop 8 s))
      in if 1 \<le> y \<and> y \<le> 9999 \<and> 1 \<le> m \<and> m \<le> 12 \<and> 1 \<le> d \<and> d \<le> days_in_month y m
         then Inr \<lparr>year = y, month = m, day = d, hour = 0, minute = 0, second = 0,
                   microsecond = 0, tzinfo = None\<rparr>
         else Inl ValueError)"

section \<open>Filters and query descriptions\<close>

text \<open>
  A Python \<^verbatim>\<open>dict\<close> with string keys is an association list in insertion order;
  \<open>AList.update\<close> is \<^verbatim>\<open>d[k] = v\<close> (an existing key keeps its place, a new one goes
  last). The values of the filter are themselves dicts from operator to value.
\<close>

datatype bson = BDate datetime | BStr string | BList "string list" | BNum rat

type_synonym pred = "(string \<times> bson) list"

type_synonym filt = "(string \<times> pred) list"

datatype expr = Convert string string int int
  \<comment> \<open>\<^verbatim>\<open>{"$convert": {"input": .., "to": .., "onError": .., "onNull": ..}}\<close>\<close>

datatype accum = SumOf expr | SumConst int | AvgOf expr

datatype stage =
    Match filt
  | Group "string option" "(string \<times> accum) list"
  | Sort "(string \<times> int) list"
  | AddFields "(string \<times> expr) list"
  | Limit int
  | Project "(string \<times> int) list"

record aggregation =
  agg_type :: string
  pipeline :: "stage list"

record query =
  filter_q :: filt
  limit :: int
  is_count :: bool
  agg :: "aggregation option"

section \<open>Temporal phrases\<close>

definition MONTH_KEYWORDS :: "string list" where
  "MONTH_KEYWORDS = [''this month'', ''current month'']"

definition YEAR_KEYWORDS :: "string list" where
  "YEAR_KEYWORDS = [''this year'', ''current year'']"

definition WEEK_KEYWORDS :: "string list" where
  "WEEK_KEYWORDS = [''this week'', ''current week'']"

definition spaces1 :: regex where
  \<comment> \<open>\<^verbatim>\<open>\s+\<close>\<close>
  "spaces1 = Rep True [SpaceC] 1 None"

definition digits1 :: regex where
  \<comment> \<open>\<^verbatim>\<open>\d+\<close>\<close>
  "digits1 = Rep True [DigitC] 1 None"

definition LAST_N_DAYS_RE :: regex where
  \<comment> \<open>\<^verbatim>\<open>last\s+(\d+)\s+days?\<close>\<close>
  "LAST_N_DAYS_RE = cat [Lit ''last'', spaces1, Grp 1 digits1, spaces1, Lit ''day'', Opt (Lit ''s'')]"

definition LAST_7_DAYS_RE :: regex where
  \<comment> \<open>\<^verbatim>\<open>last\s+7\s+days?\<close>\<close>
  "LAST_7_DAYS_RE = cat [Lit ''last'', spaces1, Lit ''7'', spaces1, Lit ''day'', Opt (Lit ''s'')]"

definition LAST_7_DAY_RE :: regex where
  \<comment> \<open>\<^verbatim>\<open>last\s+7\s+day\<close>, the pattern written inline at its use\<close>
  "LAST_7_DAY_RE = cat [Lit ''last'', spaces1, Lit ''7'', spaces1, Lit ''day'']"

definition ymd_re :: regex where
  \<comment> \<open>\<^verbatim>\<open>\d{4}-\d{2}-\d{2}\<close>\<close>
  "ymd_re = cat [Rep True [DigitC] 4 (Some 4), Lit ''-'', Rep True [DigitC] 2 (Some 2),
                 Lit ''-'', Rep True [DigitC] 2 (Some 2)]"

definition BETWEEN_RE :: regex where
  \<comment> \<open>\<^verbatim>\<open>between\s+(\d{4}-\d{2}-\d{2})\s+and\s+(\d{4}-\d{2}-\d{2})\<close>\<close>
  "BETWEEN_RE = cat [Lit ''between'', spaces1, Grp 1 ymd_re, spaces1, Lit ''and'', spaces1,
                     Grp 2 ymd_re]"

definition date_range :: "string \<Rightarrow> string \<Rightarrow> datetime \<Rightarrow> datetime \<Rightarrow> filt" where
  \<comment> \<open>\<^verbatim>\<open>{date_field: {"$gte": start, upper: end}}\<close>\<close>
  "date_range date_field upper start end = [(date_field, [(''$gte'', BDate start), (upper, BDate end)])]"

definition explicit_range :: "string \<Rightarrow> string \<Rightarrow> filt option" where
  \<comment> \<open>the \<^verbatim>\<open>between\<close> rule: \<open>None\<close> when the pattern does not match, and when a date
      fails to parse (\<^verbatim>\<open>except: pass\<close>)\<close>
  "explicit_range nl date_field =
     (case re_search True BETWEEN_RE nl of
        None \<Rightarrow> None
      | Some m \<Rightarrow>
          (case dateparser_parse (m_group m 1) of
             Inl e \<Rightarrow> None
           | Inr a \<Rightarrow>
               (case dateparser_parse (m_group m 2) of
                  Inl e \<Rightarrow> None
                | Inr b \<Rightarrow> Some (date_range date_field ''$lte'' a b))))"

definition month_window :: "datetime \<Rightarrow> string \<Rightarrow> py_error + filt" where
  "month_window now date_field =
     (let start = midnight (now\<lparr>day := 1\<rparr>)
      in if month start = 12
         then (case replace_year (start\<lparr>month := 1\<rparr>) (year start + 1) of
                 Inl e \<Rightarrow> Inl e
               | Inr end \<Rightarrow> Inr (date_range date_field ''$lt'' start end))
         else Inr (date_range date_field ''$lt'' start (start\<lparr>month := month start + 1\<rparr>)))"

definition year_window :: "datetime \<Rightarrow> string \<Rightarrow> py_error + filt" where
  "year_window now date_field =
     (let start = midnight (now\<lparr>month := 1, day := 1\<rparr>)
      in case replace_year start (year start + 1) of
           Inl e \<Rightarrow> Inl e
         | Inr end \<Rightarrow> Inr (date_range date_field ''$lt'' start end))"

definition week_window :: "datetime \<Rightarrow> string \<Rightarrow> py_error + filt" where
  "week_window now date_field =
     (case add_days now (- weekday now) of
        Inl e \<Rightarrow> Inl e
      | Inr t \<Rightarrow>
          (let monday = midnight t
           in case add_days monday 7 of
                Inl e \<Rightarrow> Inl e
              | Inr next_monday \<Rightarrow> Inr (date_range date_field ''$lt'' monday next_monday)))"

definition days_window :: "datetime \<Rightarrow> string \<Rightarrow> int \<Rightarrow> py_error + filt" where
  \<comment> \<open>\<^verbatim>\<open>start = (now - timedelta(days=n)).replace(...)\<close>, \<^verbatim>\<open>end = now\<close>\<close>
  "days_window now date_field n =
     (case timedelta_days n of
        Inl e \<Rightarrow> Inl e
      | Inr k \<Rightarrow>
          (case add_days now (- k) of
             Inl e \<Rightarrow> Inl e
           | Inr t \<Rightarrow> Inr (date_range date_field ''$lt'' (midnight t) now)))"

definition any_in :: "string list \<Rightarrow> string \<Rightarrow> bool" where
  \<comment> \<open>\<^verbatim>\<open>any(k in s for k in keywords)\<close>\<close>
  "any_in keywords s = list_ex (contains s) keywords"

definition relative_range :: "datetime \<Rightarrow> string \<Rightarrow> string \<Rightarrow> py_error + filt" where
  \<comment> \<open>the rules after the \<^verbatim>\<open>between\<close> rule, lines 121 to 159; \<open>now\<close> is the value that
      \<^verbatim>\<open>now_with_tz()\<close> returns at line 121\<close>
  "relative_range now nl date_field =
     (let nl_low = lower nl
      in if any_in MONTH_KEYWORDS nl_low then month_window now date_field
         else if any_in YEAR_KEYWORDS nl_low then year_window now date_field
         else if any_in WEEK_KEYWORDS nl_low then week_window now date_field
         else case re_search True LAST_N_DAYS_RE nl of
                Some m \<Rightarrow>
                  (case py_int (m_group m 1) of
                     Inl e \<Rightarrow> Inl e
                   | Inr n \<Rightarrow> days_window now date_field n)
              | None \<Rightarrow>
                  if re_search True LAST_7_DAYS_RE nl \<noteq> None \<or> re_search True LAST_7_DAY_RE nl \<noteq> None
                  then days_window now date_field 7
                  else Inr [])"

definition parse_date_specifics ::
  "datetime \<Rightarrow> string \<Rightarrow> string list \<Rightarrow> string option \<Rightarrow> py_error + filt" where
  \<comment> \<open>The first argument is the reading of the system clock: the source takes it inside
      the function (\<^verbatim>\<open>now = now_with_tz()\<close>), it is no parameter there.\<close>
  "parse_date_specifics now nl columns date_override =
     (let date_field = py_or date_override (detect_date_field columns)
      in if \<not> truthy date_field then Inr []
         else case explicit_range nl (the date_field) of
                Some f \<Rightarrow> Inr f
              | None \<Rightarrow> relative_range now nl (the date_field))"

section \<open>Intent signals\<close>

definition COUNT_RE :: regex where
  \<comment> \<open>\<^verbatim>\<open>\bhow many\b|\bcount\b|\bnumber of\b\<close>\<close>
  "COUNT_RE = alts [cat [WordB, Lit ''how many'', WordB], cat [WordB, Lit ''count'', WordB],
                    cat [WordB, Lit ''number of'', WordB]]"

definition detect_count :: "string \<Rightarrow> bool" where
  "detect_count nl = (re_search False COUNT_RE (lower nl) \<noteq> None)"

definition TOP_RE :: regex where
  \<comment> \<open>\<^verbatim>\<open>top\s+(\d+)\<close>\<close>
  "TOP_RE = cat [Lit ''top'', spaces1, Grp 1 digits1]"

definition detect_top_n :: "string \<Rightarrow> py_error + int option" where
  "detect_top_n nl =
     (case re_search True TOP_RE nl of
        None \<Rightarrow> Inr None
      | Some m \<Rightarrow> (case py_int (m_group m 1) of Inl e \<Rightarrow> Inl e | Inr n \<Rightarrow> Inr (Some n)))"

definition SUM_RE :: regex where
  \<comment> \<open>\<^verbatim>\<open>\b(total|sum|total cost|total amount)\b\<close>\<close>
  "SUM_RE = cat [WordB, Grp 1 (alts [Lit ''total'', Lit ''sum'', Lit ''total cost'',
                                      Lit ''total amount'']), WordB]"

definition detect_sum_request :: "string \<Rightarrow> bool" where
  "detect_sum_request nl = (re_search False SUM_RE (lower nl) \<noteq> None)"

definition GROUP_BY_RE :: regex where
  \<comment> \<open>\<^verbatim>\<open>group(?:ed)? by\s+([a-z0-9 _-]+)\<close>\<close>
  "GROUP_BY_RE = cat [Lit ''group'', Opt (Lit ''ed''), Lit '' by'', spaces1,
     Grp 1 (Rep True [Rng CHR ''a'' CHR ''z'', Rng CHR ''0'' CHR ''9'', Ch CHR '' '',
                      Ch CHR ''_'', Ch CHR ''-''] 1 None)]"

definition detect_group_by :: "string \<Rightarrow> string option" where
  "detect_group_by nl =
     (case re_search True GROUP_BY_RE nl of
        Some m \<Rightarrow> Some (strip (m_group m 1))
      | None \<Rightarrow>
          if contains (lower nl) ''by status'' \<or> contains (lower nl) ''group by status''
             \<or> contains (lower nl) ''grouped by status''
          then Some ''status'' else None)"

section \<open>Predicates\<close>

definition loc_chars :: "citem list" where
  \<comment> \<open>\<^verbatim>\<open>[A-Za-z0-9\-\s,]\<close>\<close>
  "loc_chars = [Rng CHR ''A'' CHR ''Z'', Rng CHR ''a'' CHR ''z'', Rng CHR ''0'' CHR ''9'',
                Ch CHR ''-'', SpaceC, Ch CHR '','']"

definition FROM_RE :: regex where
  \<comment> \<open>\<^verbatim>\<open>\bfrom\s+([A-Za-z0-9\-\s,]+?)(?:\s+to\b|$)\<close>\<close>
  "FROM_RE = cat [WordB, Lit ''from'', spaces1, Grp 1 (Rep False loc_chars 1 None),
                  Alt (cat [spaces1, Lit ''to'', WordB]) Eos]"

definition TO_RE :: regex where
  \<comment> \<open>\<^verbatim>\<open>\bto\s+([A-Za-z0-9\-\s,]+?)(?:\s+with\b|$)\<close>\<close>
  "TO_RE = cat [WordB, Lit ''to'', spaces1, Grp 1 (Rep False loc_chars 1 None),
                Alt (cat [spaces1, Lit ''with'', WordB]) Eos]"

definition regex_pred :: "string \<Rightarrow> pred" where
  \<comment> \<open>\<^verbatim>\<open>{"$regex": s, "$options": "i"}\<close>\<close>
  "regex_pred s = [(''$regex'', BStr s), (''$options'', BStr ''i'')]"

definition location_step :: "regex \<Rightarrow> string list \<Rightarrow> string \<Rightarrow> string list \<Rightarrow> filt \<Rightarrow> filt" where
  \<comment> \<open>lines 197 to 201 with \<open>FROM_RE\<close>, lines 203 to 207 with \<open>TO_RE\<close>\<close>
  "location_step r keywords nl columns filt =
     (case re_search True r nl of
        None \<Rightarrow> filt
      | Some m \<Rightarrow>
          (let fld = find_field columns keywords
           in if truthy fld then AList.update (the fld) (regex_pred (strip (m_group m 1))) filt
              else filt))"

definition STATUS_WORDS :: "string list" where
  "STATUS_WORDS = [''delivered'', ''pending'', ''in transit'', ''cancelled'', ''returned'',
                   ''booked'', ''shipped'']"

definition status_re :: "string \<Rightarrow> regex" where
  \<comment> \<open>\<^verbatim>\<open>r"\b" + re.escape(s) + r"\b"\<close>\<close>
  "status_re s = cat [WordB, Lit s, WordB]"

definition status_step :: "string \<Rightarrow> string list \<Rightarrow> filt \<Rightarrow> filt" where
  "status_step nl columns filt =
     (let statuses = filter (\<lambda>s. re_search True (status_re s) nl \<noteq> None) STATUS_WORDS
      in if statuses \<noteq> []
         then (let status_field = detect_status_field columns
               in if truthy status_field
                  then AList.update (the status_field) [(''$in'', BList statuses)] filt
                  else filt)
         else filt)"

definition COMPARE_RE :: regex where
  \<comment> \<open>\<^verbatim>\<open>([A-Za-z _#\-]{2,40})\s*(>=|<=|>|<|=)\s*([0-9,\.]+)\<close>\<close>
  "COMPARE_RE = cat
     [Grp 1 (Rep True [Rng CHR ''A'' CHR ''Z'', Rng CHR ''a'' CHR ''z'', Ch CHR '' '',
                       Ch CHR ''_'', Ch CHR ''#'', Ch CHR ''-''] 2 (Some 40)),
      Rep True [SpaceC] 0 None,
      Grp 2 (alts [Lit ''>='', Lit ''<='', Lit ''>'', Lit ''<'', Lit ''='']),
      Rep True [SpaceC] 0 None,
      Grp 3 (Rep True [Rng CHR ''0'' CHR ''9'', Ch CHR '','', Ch CHR ''.''] 1 None)]"

definition opmap :: "string \<Rightarrow> string" where
  "opmap op =
     (if op = ''='' then ''$eq'' else if op = ''>'' then ''$gt'' else if op = ''<'' then ''$lt''
      else if op = ''>='' then ''$gte'' else ''$lte'')"

definition compare_column :: "string list \<Rightarrow> string option \<Rightarrow> string \<Rightarrow> string option" where
  \<comment> \<open>\<^verbatim>\<open>find_field(columns, [ft.strip()]) or (cost_override or detect_cost_field(columns))\<close>\<close>
  "compare_column columns cost_override ft =
     py_or (find_field columns [strip ft]) (py_or cost_override (detect_cost_field columns))"

definition setdefault :: "string \<Rightarrow> filt \<Rightarrow> filt" where
  \<comment> \<open>\<^verbatim>\<open>filt.setdefault(col, {})\<close>\<close>
  "setdefault col filt = (case map_of filt col of None \<Rightarrow> AList.update col [] filt | Some d \<Rightarrow> filt)"

definition set_inner :: "string \<Rightarrow> string \<Rightarrow> bson \<Rightarrow> filt \<Rightarrow> filt" where
  \<comment> \<open>\<^verbatim>\<open>filt[col][k] = v\<close>, for a key \<open>col\<close> of \<open>filt\<close>\<close>
  "set_inner col k v filt = AList.map_entry col (AList.update k v) filt"

definition comparison :: "string list \<Rightarrow> string option \<Rightarrow> mstate \<Rightarrow> filt \<Rightarrow> py_error + filt" where
  \<comment> \<open>the body of the loop at lines 220 to 228\<close>
  "comparison columns cost_override m filt =
     (let col = compare_column columns cost_override (m_group m 1)
      in if truthy col
         then (case py_float (filter (\<lambda>c. c \<noteq> CHR '','') (m_group m 3)) of
                 Inl e \<Rightarrow> Inl e
               | Inr val \<Rightarrow>
                   Inr (set_inner (the col) (opmap (m_group m 2)) (BNum val)
                          (setdefault (the col) filt)))
         else Inr filt)"

fun comparisons :: "string list \<Rightarrow> string option \<Rightarrow> mstate list \<Rightarrow> filt \<Rightarrow> py_error + filt" where
  "comparisons columns cost_override [] filt = Inr filt"
| "comparisons columns cost_override (m # ms) filt =
     (case comparison columns cost_override m filt of
        Inl e \<Rightarrow> Inl e
      | Inr filt' \<Rightarrow> comparisons columns cost_override ms filt')"

definition predicates :: "string \<Rightarrow> string list \<Rightarrow> string option \<Rightarrow> filt \<Rightarrow> py_error + filt" where
  \<comment> \<open>lines 196 to 228, on the filter that holds the date range\<close>
  "predicates nl columns cost_override filt =
     comparisons columns cost_override (re_finditer False COMPARE_RE nl)
       (status_step nl columns
          (location_step TO_RE [''destination'', ''to'', ''to company'', ''to id''] nl columns
             (location_step FROM_RE [''origin'', ''from'', ''location''] nl columns filt)))"

section \<open>Assembling the query\<close>

definition convert :: "string \<Rightarrow> expr" where
  \<comment> \<open>the \<^verbatim>\<open>$convert\<close> of \<^verbatim>\<open>f"${cost_field}"\<close> to double, 0 on error and on null\<close>
  "convert cost_field = Convert (''$'' @ cost_field) ''double'' 0 0"

definition sum_pipeline :: "filt \<Rightarrow> string \<Rightarrow> stage list" where
  "sum_pipeline filt cost_field = [Match filt, Group None [(''total'', SumOf (convert cost_field))]]"

definition group_pipeline :: "filt \<Rightarrow> string \<Rightarrow> string \<Rightarrow> stage list" where
  "group_pipeline filt group_field cost_field =
     [Match filt,
      Group (Some (''$'' @ group_field))
        [(''count'', SumConst 1), (''total_cost'', SumOf (convert cost_field)),
         (''avg_cost'', AvgOf (convert cost_field))],
      Sort [(''total_cost'', - 1)]]"

definition top_pipeline :: "filt \<Rightarrow> string \<Rightarrow> int \<Rightarrow> stage list" where
  "top_pipeline filt cost_field topn =
     (if filt \<noteq> [] then [Match filt] else [])
     @ [AddFields [(''__cost_num'', convert cost_field)], Sort [(''__cost_num'', - 1)],
        Limit topn, Project [(''__cost_num'', 0)]]"

definition group_field_of :: "string list \<Rightarrow> string \<Rightarrow> string option" where
  "group_field_of columns group_by =
     (if lower group_by \<in> set [''status'', ''delivery status'', ''shipment status'']
      then py_or (detect_status_field columns) (find_field columns [group_by])
      else find_field columns [group_by])"

definition top_query :: "string \<Rightarrow> string list \<Rightarrow> string option \<Rightarrow> query \<Rightarrow> py_error + query" where
  \<comment> \<open>lines 293 to 316\<close>
  "top_query nl columns cost_override q =
     (case detect_top_n nl of
        Inl e \<Rightarrow> Inl e
      | Inr topn \<Rightarrow>
          (let cost_field = py_or cost_override (detect_cost_field columns)
           in if topn \<noteq> None \<and> topn \<noteq> Some 0 \<and> truthy cost_field
              then Inr (q\<lparr>agg := Some \<lparr>agg_type = ''top'',
                                        pipeline = top_pipeline (filter_q q) (the cost_field) (the topn)\<rparr>\<rparr>)
              else Inr q))"

definition group_query :: "string \<Rightarrow> string list \<Rightarrow> string option \<Rightarrow> query \<Rightarrow> py_error + query" where
  \<comment> \<open>lines 262 to 316\<close>
  "group_query nl columns cost_override q =
     (let group_by = detect_group_by nl
      in if truthy group_by
         then (let group_field = group_field_of columns (the group_by);
                   cost_field = py_or cost_override (detect_cost_field columns)
               in if truthy group_field \<and> truthy cost_field
                  then Inr (q\<lparr>agg := Some \<lparr>agg_type = ''group_cost'',
                         pipeline = group_pipeline (filter_q q) (the group_field) (the cost_field)\<rparr>\<rparr>)
                  else top_query nl columns cost_override q)
         else top_query nl columns cost_override q)"

definition sum_query :: "string \<Rightarrow> string list \<Rightarrow> string option \<Rightarrow> query \<Rightarrow> py_error + query" where
  \<comment> \<open>lines 238 to 316\<close>
  "sum_query nl columns cost_override q =
     (if detect_sum_request nl
      then (let cost_field = py_or cost_override (detect_cost_field columns)
            in if truthy cost_field
               then Inr (q\<lparr>agg := Some \<lparr>agg_type = ''sum'',
                                         pipeline = sum_pipeline (filter_q q) (the cost_field)\<rparr>\<rparr>)
               else group_query nl columns cost_override q)
      else group_query nl columns cost_override q)"

definition assemble :: "string \<Rightarrow> string list \<Rightarrow> string option \<Rightarrow> filt \<Rightarrow> py_error + query" where
  \<comment> \<open>lines 230 to 316\<close>
  "assemble nl columns cost_override filt =
     (let q = \<lparr>filter_q = filt, limit = 100, is_count = False, agg = None\<rparr>
      in if detect_count nl then Inr (q\<lparr>is_count := True\<rparr>)
         else sum_query nl columns cost_override q)"

definition build_filter ::
  "datetime \<Rightarrow> string \<Rightarrow> string list \<Rightarrow> string option \<Rightarrow> string option \<Rightarrow> py_error + filt" where
  \<comment> \<open>lines 189 to 228: \<^verbatim>\<open>filt\<close> as it stands when the loop of comparisons ends\<close>
  "build_filter now nl columns date_override cost_override =
     (case parse_date_specifics now nl columns date_override of
        Inl e \<Rightarrow> Inl e
      | Inr date_filter \<Rightarrow> predicates nl columns cost_override date_filter)"

definition build_query ::
  "datetime \<Rightarrow> string \<Rightarrow> string list \<Rightarrow> string option \<Rightarrow> string option \<Rightarrow> py_error + query" where
  \<comment> \<open>\<^verbatim>\<open>build_query(nl_text, columns, date_override, cost_override)\<close>; the first argument
      is the reading of the system clock taken inside \<^verbatim>\<open>parse_date_specifics\<close>. \<open>Inl\<close> is
      an exception that leaves the function. The text is a string (on a string
      \<^verbatim>\<open>nl_text or ""\<close> is \<^verbatim>\<open>nl_text\<close>); an override is \<^verbatim>\<open>None\<close> or a string.\<close>
  "build_query now nl_text columns date_override cost_override =
     (let nl = strip nl_text
      in case build_filter now nl columns date_override cost_override of
           Inl e \<Rightarrow> Inl e
         | Inr filt \<Rightarrow> assemble nl columns cost_override filt)"

section \<open>What the predicate rules assign\<close>

text \<open>
  The values of a time range are dates; the predicates of the location, status and
  comparison rules hold strings, lists and numbers. \<open>writes_to\<close> says that, on a
  text, one of these rules assigns to a field: the rule fires on the text and the
  column it resolves is that field.
\<close>

fun is_date :: "bson \<Rightarrow> bool" where
  "is_date (BDate t) = True"
| "is_date v = False"

definition mixed :: "pred \<Rightarrow> bool" where
  \<comment> \<open>some value of the predicate is no date\<close>
  "mixed d = list_ex (\<lambda>kv. \<not> is_date (snd kv)) d"

definition mixed_at :: "filt \<Rightarrow> string \<Rightarrow> bool" where
  \<comment> \<open>the field is bound, and to a predicate with a value that is no date\<close>
  "mixed_at filt f = (case map_of filt f of None \<Rightarrow> False | Some d \<Rightarrow> mixed d)"

definition writes_to :: "string \<Rightarrow> string list \<Rightarrow> string option \<Rightarrow> string \<Rightarrow> bool" where
  \<comment> \<open>on this text one of the rules of lines 196 to 228 assigns to the field: the
      \<^verbatim>\<open>from\<close> phrase, the \<^verbatim>\<open>to\<close> phrase, a status word, or a comparison\<close>
  "writes_to nl columns cost_override f =
     (f \<noteq> [] \<and>
      ((re_search True FROM_RE nl \<noteq> None
          \<and> find_field columns [''origin'', ''from'', ''location''] = Some f)
       \<or> (re_search True TO_RE nl \<noteq> None
          \<and> find_field columns [''destination'', ''to'', ''to company'', ''to id''] = Some f)
       \<or> (filter (\<lambda>s. re_search True (status_re s) nl \<noteq> None) STATUS_WORDS \<noteq> []
          \<and> detect_status_field columns = Some f)
       \<or> list_ex (\<lambda>m. compare_column columns cost_override (m_group m 1) = Some f)
            (re_finditer False COMPARE_RE nl)))"

section \<open>Two readings of the clock\<close>

definition now_example :: datetime where
  \<comment> \<open>2024-03-15 10:00 in Asia/Kolkata\<close>
  "now_example = \<lparr>year = 2024, month = 3, day = 15, hour = 10, minute = 0, second = 0,
                   microsecond = 0, tzinfo = Some ''Asia/Kolkata''\<rparr>"

definition now_later :: datetime where
  \<comment> \<open>2024-04-15 10:00 in Asia/Kolkata\<close>
  "now_later = \<lparr>year = 2024, month = 4, day = 15, hour = 10, minute = 0, second = 0,
                 microsecond = 0, tzinfo = Some ''Asia/Kolkata''\<rparr>"

section \<open>Evaluating the model\<close>

text \<open>
  Facts that let the simplifier run the definitions on a given text: the code of every
  ASCII character (the texts evaluated below are ASCII), and the two cases of each
  letter.
\<close>

lemma code_ascii:
  "code (CHR '' '') = 32" "code (CHR ''!'') = 33" "code (CHR 0x22) = 34"
  "code (CHR ''#'') = 35" "code (CHR ''$'') = 36" "code (CHR ''%'') = 37"
  "code (CHR ''&'') = 38" "code (CHR 0x27) = 39" "code (CHR ''('') = 40"
  "code (CHR '')'') = 41" "code (CHR ''*'') = 42" "code (CHR ''+'') = 43"
  "code (CHR '','') = 44" "code (CHR ''-'') = 45" "code (CHR ''.'') = 46"
  "code (CHR ''/'') = 47" "code (CHR ''0'') = 48" "code (CHR ''1'') = 49"
  "code (CHR ''2'') = 50" "code (CHR ''3'') = 51" "code (CHR ''4'') = 52"
  "code (CHR ''5'') = 53" "code (CHR ''6'') = 54" "code (CHR ''7'') = 55"
  "code (CHR ''8'') = 56" "code (CHR ''9'') = 57" "code (CHR '':'') = 58"
  "code (CHR '';'') = 59" "code (CHR ''<'') = 60" "code (CHR ''='') = 61"
  "code (CHR ''>'') = 62" "code (CHR ''?'') = 63" "code (CHR ''@'') = 64"
  "code (CHR ''A'') = 65" "code (CHR ''B'') = 66" "code (CHR ''C'') = 67"
  "code (CHR ''D'') = 68" "code (CHR ''E'') = 69" "code (CHR ''F'') = 70"
  "code (CHR ''G'') = 71" "code (CHR ''H'') = 72" "code (CHR ''I'') = 73"
  "code (CHR ''J'') = 74" "code (CHR ''K'') = 75" "code (CHR ''L'') = 76"
  "code (CHR ''M'') = 77" "code (CHR ''N'') = 78" "code (CHR ''O'') = 79"
  "code (CHR ''P'') = 80" "code (CHR ''Q'') = 81" "code (CHR ''R'') = 82"
  "code (CHR ''S'') = 83" "code (CHR ''T'') = 84" "code (CHR ''U'') = 85"
  "code (CHR ''V'') = 86" "code (CHR ''W'') = 87" "code (CHR ''X'') = 88"
  "code (CHR ''Y'') = 89" "code (CHR ''Z'') = 90" "code (CHR ''['') = 91"
  "code (CHR 0x5C) = 92" "code (CHR '']'') = 93" "code (CHR ''^'') = 94"
  "code (CHR ''_'') = 95" "code (CHR 0x60) = 96" "code (CHR ''a'') = 97"
  "code (CHR ''b'') = 98" "code (CHR ''c'') = 99" "code (CHR ''d'') = 100"
  "code (CHR ''e'') = 101" "code (CHR ''f'') = 102" "code (CHR ''g'') = 103"
  "code (CHR ''h'') = 104" "code (CHR ''i'') = 105" "code (CHR ''j'') = 106"
  "code (CHR ''k'') = 107" "code (CHR ''l'') = 108" "code (CHR ''m'') = 109"
  "code (CHR ''n'') = 110" "code (CHR ''o'') = 111" "code (CHR ''p'') = 112"
  "code (CHR ''q'') = 113" "code (CHR ''r'') = 114" "code (CHR ''s'') = 115"
  "code (CHR ''t'') = 116" "code (CHR ''u'') = 117" "code (CHR ''v'') = 118"
  "code (CHR ''w'') = 119" "code (CHR ''x'') = 120" "code (CHR ''y'') = 121"
  "code (CHR ''z'') = 122" "code (CHR ''{'') = 123" "code (CHR ''|'') = 124"
  "code (CHR ''}'') = 125" "code (CHR ''~'') = 126" "code (CHR 0x09) = 9"
  "code (CHR 0x0A) = 10" "code (CHR 0x0D) = 13"
  by (simp_all add: code_def)

lemma lower_char_upper:
  "lower_char CHR ''A'' = CHR ''a''" "lower_char CHR ''B'' = CHR ''b''"
  "lower_char CHR ''C'' = CHR ''c''" "lower_char CHR ''D'' = CHR ''d''"
  "lower_char CHR ''E'' = CHR ''e''" "lower_char CHR ''F'' = CHR ''f''"
  "lower_char CHR ''G'' = CHR ''g''" "lower_char CHR ''H'' = CHR ''h''"
  "lower_char CHR ''I'' = CHR ''i''" "lower_char CHR ''J'' = CHR ''j''"
  "lower_char CHR ''K'' = CHR ''k''" "lower_char CHR ''L'' = CHR ''l''"
  "lower_char CHR ''M'' = CHR ''m''" "lower_char CHR ''N'' = CHR ''n''"
  "lower_char CHR ''O'' = CHR ''o''" "lower_char CHR ''P'' = CHR ''p''"
  "lower_char CHR ''Q'' = CHR ''q''" "lower_char CHR ''R'' = CHR ''r''"
  "lower_char CHR ''S'' = CHR ''s''" "lower_char CHR ''T'' = CHR ''t''"
  "lower_char CHR ''U'' = CHR ''u''" "lower_char CHR ''V'' = CHR ''v''"
  "lower_char CHR ''W'' = CHR ''w''" "lower_char CHR ''X'' = CHR ''x''"
  "lower_char CHR ''Y'' = CHR ''y''" "lower_char CHR ''Z'' = CHR ''z''"
  by (simp_all add: lower_char_def is_upper_def latin1_upper_def code_ascii char_of_eq_iff
        code_def[symmetric])

lemma upper_char_lower:
  "upper_char CHR ''a'' = CHR ''A''" "upper_char CHR ''b'' = CHR ''B''"
  "upper_char CHR ''c'' = CHR ''C''" "upper_char CHR ''d'' = CHR ''D''"
  "upper_char CHR ''e'' = CHR ''E''" "upper_char CHR ''f'' = CHR ''F''"
  "upper_char CHR ''g'' = CHR ''G''" "upper_char CHR ''h'' = CHR ''H''"
  "upper_char CHR ''i'' = CHR ''I''" "upper_char CHR ''j'' = CHR ''J''"
  "upper_char CHR ''k'' = CHR ''K''" "upper_char CHR ''l'' = CHR ''L''"
  "upper_char CHR ''m'' = CHR ''M''" "upper_char CHR ''n'' = CHR ''N''"
  "upper_char CHR ''o'' = CHR ''O''" "upper_char CHR ''p'' = CHR ''P''"
  "upper_char CHR ''q'' = CHR ''Q''" "upper_char CHR ''r'' = CHR ''R''"
  "upper_char CHR ''s'' = CHR ''S''" "upper_char CHR ''t'' = CHR ''T''"
  "upper_char CHR ''u'' = CHR ''U''" "upper_char CHR ''v'' = CHR ''V''"
  "upper_char CHR ''w'' = CHR ''W''" "upper_char CHR ''x'' = CHR ''X''"
  "upper_char CHR ''y'' = CHR ''Y''" "upper_char CHR ''z'' = CHR ''Z''"
  by (simp_all add: upper_char_def is_lower_def code_ascii char_of_eq_iff code_def[symmetric])

lemma lower_char_other: "\<not> is_upper c \<Longrightarrow> \<not> latin1_upper c \<Longrightarrow> lower_char c = c"
  by (simp add: lower_char_def)

lemma upper_char_other: "\<not> is_lower c \<Longrightarrow> upper_char c = c"
  by (simp add: upper_char_def)

lemmas chr_defs = code_ascii is_space_def is_digit_def is_upper_def is_lower_def is_word_def
  latin1_word_def latin1_upper_def
  lower_char_upper upper_char_lower lower_char_other upper_char_other lower_def strip_def

lemmas rx_defs = in_set_def at_boundary_def at_end_def cat_def alts_def re_search_def
  re_finditer_def m_group_def spaces1_def digits1_def Let_def

lemmas field_defs = truthy_def py_or_def COST_KEYWORDS_def DATE_FIELD_HINTS_def
  STATUS_FIELD_HINTS_def detect_cost_field_def detect_date_field_def detect_status_field_def

lemmas date_defs = digits_val_def py_int_def dateparser_parse_def is_leap_def
  days_before_year_def days_in_month_def DAYS_BEFORE_MONTH_def days_before_month_def
  ymd2ord_def ord2ymd_def toordinal_def weekday_def MAXORDINAL_def timedelta_days_def
  add_days_def midnight_def replace_year_def MONTH_KEYWORDS_def YEAR_KEYWORDS_def
  WEEK_KEYWORDS_def LAST_N_DAYS_RE_def LAST_7_DAYS_RE_def LAST_7_DAY_RE_def ymd_re_def
  BETWEEN_RE_def date_range_def explicit_range_def month_window_def year_window_def
  week_window_def days_window_def any_in_def relative_range_def parse_date_specifics_def

lemmas pred_defs = py_float_def loc_chars_def FROM_RE_def TO_RE_def regex_pred_def
  location_step_def STATUS_WORDS_def status_re_def status_step_def COMPARE_RE_def opmap_def
  compare_column_def setdefault_def set_inner_def comparison_def predicates_def

lemmas intent_defs = COUNT_RE_def detect_count_def TOP_RE_def detect_top_n_def SUM_RE_def
  detect_sum_request_def GROUP_BY_RE_def detect_group_by_def convert_def sum_pipeline_def
  group_pipeline_def top_pipeline_def group_field_of_def top_query_def group_query_def
  sum_query_def assemble_def

lemmas eval_defs = chr_defs rx_defs field_defs date_defs pred_defs intent_defs
  build_filter_def build_query_def

section \<open>The shape of every query description\<close>

lemma top_query_shape:
  "top_query nl columns co q = Inr q' \<Longrightarrow>
     filter_q q' = filter_q q \<and> limit q' = limit q \<and> is_count q' = is_count q"
  by (auto simp: top_query_def Let_def split: sum.splits if_splits)

lemma group_query_shape:
  "group_query nl columns co q = Inr q' \<Longrightarrow>
     filter_q q' = filter_q q \<and> limit q' = limit q \<and> is_count q' = is_count q"
  by (auto simp: group_query_def Let_def split: if_splits dest: top_query_shape)

lemma sum_query_shape:
  "sum_query nl columns co q = Inr q' \<Longrightarrow>
     filter_q q' = filter_q q \<and> limit q' = limit q \<and> is_count q' = is_count q"
  by (auto simp: sum_query_def Let_def split: if_splits dest: group_query_shape)

lemma assemble_shape:
  "assemble nl columns co filt = Inr q \<Longrightarrow>
     filter_q q = filt \<and> limit q = 100 \<and> is_count q = detect_count nl
       \<and> (is_count q \<longrightarrow> agg q = None)"
  by (auto simp: assemble_def Let_def split: if_splits dest: sum_query_shape)

text \<open>
  C10. Whenever \<open>build_query\<close> returns a query description, its limit is 100, and when
  \<open>is_count\<close> is set there is no aggregation: the count branch returns before any
  pipeline is built.
\<close>

theorem build_query_limit_and_count:
  "build_query now nl_text columns date_override cost_override = Inr q \<Longrightarrow>
     limit q = 100 \<and> (is_count q \<longrightarrow> agg q = None)"
  by (auto simp: build_query_def Let_def split: sum.splits dest: assemble_shape)

theorem build_query_limit_and_count_witness:
  "build_query now_example ''number of'' [] None None
     = Inr \<lparr>filter_q = [], limit = 100, is_count = True, agg = None\<rparr>
   \<and> limit \<lparr>filter_q = [], limit = 100, is_count = True, agg = None\<rparr> = 100
   \<and> is_count \<lparr>filter_q = [], limit = 100, is_count = True, agg = None\<rparr>
   \<and> agg \<lparr>filter_q = [], limit = 100, is_count = True, agg = None\<rparr> = None"
proof -
  have run: "build_query now_example ''number of'' [] None None
      = Inr \<lparr>filter_q = [], limit = 100, is_count = True, agg = None\<rparr>"
    by (simp add: eval_defs)
  from build_query_limit_and_count [OF run] run show ?thesis by simp
qed

section \<open>Priority of the count intent\<close>



section \<open>A comparison whose number does not parse\<close>

text \<open>
  C3. The claim says that \<open>build_query\<close> never raises and drops a comparison whose
  number cannot be parsed. The loop of comparisons calls \<^verbatim>\<open>float\<close> outside any
  \<^verbatim>\<open>try\<close>: for the text \<^verbatim>\<open>cost > 1.2.3\<close> on the column \<^verbatim>\<open>Cost\<close> the \<^verbatim>\<open>ValueError\<close>
  leaves \<open>build_query\<close>, at any reading of the clock.
\<close>

theorem unparseable_number_raises:
  "build_query now ''cost > 1.2.3'' [''Cost''] None None = Inl ValueError"
  by (simp add: eval_defs)

section \<open>Comparisons on one field\<close>

text \<open>
  C8. Two comparisons that resolve to the same column accumulate in one predicate: the
  text \<^verbatim>\<open>cost > 100 cost < 500\<close> on the column \<^verbatim>\<open>Cost (USD)\<close> binds the column to
  \<^verbatim>\<open>{"$gt": 100.0, "$lt": 500.0}\<close>, at any reading of the clock. In general a comparison
  whose column resolves and whose number parses adds its operator to the predicate the
  column already has (to the empty predicate when it has none).
\<close>

theorem comparisons_accumulate:
  "build_query now ''cost > 100 cost < 500'' [''Cost (USD)''] None None =
     Inr \<lparr>filter_q = [(''Cost (USD)'', [(''$gt'', BNum 100), (''$lt'', BNum 500)])],
          limit = 100, is_count = False, agg = None\<rparr>
   \<and> (compare_column columns cost_override (m_group m 1) = Some col \<and> col \<noteq> []
        \<and> py_float (filter (\<lambda>c. c \<noteq> CHR '','') (m_group m 3)) = Inr v \<longrightarrow>
       (\<exists>filt'. comparison columns cost_override m filt = Inr filt'
          \<and> map_of filt' col =
              Some (AList.update (opmap (m_group m 2)) (BNum v)
                      (case map_of filt col of None \<Rightarrow> [] | Some d \<Rightarrow> d))))"
proof -
  have "build_query now ''cost > 100 cost < 500'' [''Cost (USD)''] None None =
     Inr \<lparr>filter_q = [(''Cost (USD)'', [(''$gt'', BNum 100), (''$lt'', BNum 500)])],
          limit = 100, is_count = False, agg = None\<rparr>"
    by (simp add: eval_defs)
  moreover have "compare_column columns cost_override (m_group m 1) = Some col \<and> col \<noteq> []
        \<and> py_float (filter (\<lambda>c. c \<noteq> CHR '','') (m_group m 3)) = Inr v \<longrightarrow>
       (\<exists>filt'. comparison columns cost_override m filt = Inr filt'
          \<and> map_of filt' col =
              Some (AList.update (opmap (m_group m 2)) (BNum v)
                      (case map_of filt col of None \<Rightarrow> [] | Some d \<Rightarrow> d)))"
    by (auto simp: comparison_def Let_def truthy_def set_inner_def setdefault_def
          map_of_map_entry update_conv' split: option.splits)
  ultimately show ?thesis by simp
qed

theorem comparisons_accumulate_witness:
  "compare_column [''Cost (USD)''] None '' cost '' = Some ''Cost (USD)''
   \<and> py_float (filter (\<lambda>c. c \<noteq> CHR '','') ''1,500'') = Inr 1500
   \<and> comparison [''Cost (USD)''] None
        \<lparr>prev = Some CHR ''0'', rest = [], caps = [(3, ''1,500''), (2, ''<''), (1, '' cost '')]\<rparr>
        [(''Cost (USD)'', [(''$gt'', BNum 100)])]
      = Inr [(''Cost (USD)'', [(''$gt'', BNum 100), (''$lt'', BNum 1500)])]"
proof -
  let ?m = "\<lparr>prev = Some CHR ''0'', rest = [], caps = [(3, ''1,500''), (2, ''<''), (1, '' cost '')]\<rparr>"
  have c: "compare_column [''Cost (USD)''] None '' cost '' = Some ''Cost (USD)''"
    by (simp add: chr_defs field_defs compare_column_def)
  have v: "py_float (filter (\<lambda>c. c \<noteq> CHR '','') ''1,500'') = Inr 1500"
    by (simp add: chr_defs py_float_def digits_val_def)
  have r: "comparison [''Cost (USD)''] None ?m [(''Cost (USD)'', [(''$gt'', BNum 100)])]
             = Inr [(''Cost (USD)'', [(''$gt'', BNum 100), (''$lt'', BNum 1500)])]"
    by (simp add: chr_defs field_defs pred_defs m_group_def digits_val_def)
  have g: "m_group ?m 1 = '' cost ''" "m_group ?m 3 = ''1,500''" by (simp_all add: m_group_def)
  from comparisons_accumulate [of _ "[''Cost (USD)'']" None ?m "''Cost (USD)''" 1500
      "[(''Cost (USD)'', [(''$gt'', BNum 100)])]"] c v r g
  show ?thesis by simp
qed

section \<open>Windows of time\<close>

lemma between_this_month: "re_search True BETWEEN_RE ''this month'' = None"
  by (simp add: chr_defs rx_defs BETWEEN_RE_def ymd_re_def)

lemma relative_this_month:
  "relative_range now_example ''this month'' f =
     Inr [(f, [(''$gte'', BDate \<lparr>year = 2024, month = 3, day = 1, hour = 0, minute = 0,
                      second = 0, microsecond = 0, tzinfo = Some ''Asia/Kolkata''\<rparr>),
               (''$lt'', BDate \<lparr>year = 2024, month = 4, day = 1, hour = 0, minute = 0,
                      second = 0, microsecond = 0, tzinfo = Some ''Asia/Kolkata''\<rparr>)])]"
  by (simp add: chr_defs rx_defs date_defs now_example_def)

lemma between_last_7_days: "re_search True BETWEEN_RE ''last 7 days'' = None"
  by (simp add: chr_defs rx_defs BETWEEN_RE_def ymd_re_def)

lemma relative_last_7_days:
  "relative_range now_example ''last 7 days'' f =
     Inr [(f, [(''$gte'', BDate \<lparr>year = 2024, month = 3, day = 8, hour = 0, minute = 0,
                      second = 0, microsecond = 0, tzinfo = Some ''Asia/Kolkata''\<rparr>),
               (''$lt'', BDate \<lparr>year = 2024, month = 3, day = 15, hour = 10, minute = 0,
                      second = 0, microsecond = 0, tzinfo = Some ''Asia/Kolkata''\<rparr>)])]"
  by (simp add: chr_defs rx_defs date_defs now_example_def)

lemma between_this_year: "re_search True BETWEEN_RE ''this year'' = None"
  by (simp add: chr_defs rx_defs BETWEEN_RE_def ymd_re_def)

lemma relative_this_year:
  "relative_range now_example ''this year'' f =
     Inr [(f, [(''$gte'', BDate \<lparr>year = 2024, month = 1, day = 1, hour = 0, minute = 0,
                      second = 0, microsecond = 0, tzinfo = Some ''Asia/Kolkata''\<rparr>),
               (''$lt'', BDate \<lparr>year = 2025, month = 1, day = 1, hour = 0, minute = 0,
                      second = 0, microsecond = 0, tzinfo = Some ''Asia/Kolkata''\<rparr>)])]"
  by (simp add: chr_defs rx_defs date_defs now_example_def)

lemma between_this_week: "re_search True BETWEEN_RE ''this week'' = None"
  by (simp add: chr_defs rx_defs BETWEEN_RE_def ymd_re_def)

lemma relative_this_week:
  "relative_range now_example ''this week'' f =
     Inr [(f, [(''$gte'', BDate \<lparr>year = 2024, month = 3, day = 11, hour = 0, minute = 0,
                      second = 0, microsecond = 0, tzinfo = Some ''Asia/Kolkata''\<rparr>),
               (''$lt'', BDate \<lparr>year = 2024, month = 3, day = 18, hour = 0, minute = 0,
                      second = 0, microsecond = 0, tzinfo = Some ''Asia/Kolkata''\<rparr>)])]"
  by (simp add: chr_defs rx_defs date_defs now_example_def)

lemma between_last_30_days: "re_search True BETWEEN_RE ''last 30 days'' = None"
  by (simp add: chr_defs rx_defs BETWEEN_RE_def ymd_re_def)

lemma relative_last_30_days:
  "relative_range now_example ''last 30 days'' f =
     Inr [(f, [(''$gte'', BDate \<lparr>year = 2024, month = 2, day = 14, hour = 0, minute = 0,
                      second = 0, microsecond = 0, tzinfo = Some ''Asia/Kolkata''\<rparr>),
               (''$lt'', BDate \<lparr>year = 2024, month = 3, day = 15, hour = 10, minute = 0,
                      second = 0, microsecond = 0, tzinfo = Some ''Asia/Kolkata''\<rparr>)])]"
  by (simp add: chr_defs rx_defs date_defs now_example_def)


lemma resolved_date_field:
  assumes "py_or date_override (detect_date_field columns) = Some f" and "f \<noteq> []"
      and "explicit_range nl f = None"
  shows "parse_date_specifics now nl columns date_override = relative_range now nl f"
  using assms by (simp add: parse_date_specifics_def truthy_def)

text \<open>
  C9, as the code has it. The clock is read inside \<open>parse_date_specifics\<close>; for every
  reading \<open>now\<close>, every resolved date field \<open>f\<close> and every text whose \<^verbatim>\<open>between\<close> rule
  gives nothing, the relative rules bind \<open>f\<close> to a half-open range, \<^verbatim>\<open>$gte\<close> the start and
  \<^verbatim>\<open>$lt\<close> the end: the month from its first day at midnight to the first day of the next
  month (of January of the next year in December); the year from the first of January
  at midnight to the first of January of the next year; the week from Monday at
  midnight (\<open>now\<close> minus its weekday) to seven days later; the last \<open>n\<close> days from midnight
  of \<open>now\<close> minus \<open>n\<close> days to \<open>now\<close> itself. When the reading is 2024-03-15 10:00
  (Asia/Kolkata), \<^verbatim>\<open>this month\<close> is 2024-03-01 00:00 to 2024-04-01 00:00 and \<^verbatim>\<open>last 7 days\<close>
  is 2024-03-08 00:00 to 2024-03-15 10:00; \<^verbatim>\<open>this year\<close>, \<^verbatim>\<open>this week\<close> and \<^verbatim>\<open>last 30 days\<close>
  are given as well.
\<close>

theorem temporal_windows:
  assumes "py_or date_override (detect_date_field columns) = Some f" and "f \<noteq> []"
      and "explicit_range nl f = None"
  shows
    "(any_in MONTH_KEYWORDS (lower nl) \<and> month now \<noteq> 12 \<longrightarrow>
        parse_date_specifics now nl columns date_override =
          Inr [(f, [(''$gte'', BDate (midnight (now\<lparr>day := 1\<rparr>))),
                    (''$lt'', BDate (midnight (now\<lparr>month := month now + 1, day := 1\<rparr>)))])])
     \<and> (any_in MONTH_KEYWORDS (lower nl) \<and> month now = 12 \<and> 0 \<le> year now \<and> year now < 9999 \<longrightarrow>
        parse_date_specifics now nl columns date_override =
          Inr [(f, [(''$gte'', BDate (midnight (now\<lparr>day := 1\<rparr>))),
                    (''$lt'', BDate (midnight (now\<lparr>year := year now + 1, month := 1, day := 1\<rparr>)))])])
     \<and> (\<not> any_in MONTH_KEYWORDS (lower nl) \<and> any_in YEAR_KEYWORDS (lower nl)
          \<and> 0 \<le> year now \<and> year now < 9999 \<longrightarrow>
        parse_date_specifics now nl columns date_override =
          Inr [(f, [(''$gte'', BDate (midnight (now\<lparr>month := 1, day := 1\<rparr>))),
                    (''$lt'', BDate (midnight (now\<lparr>year := year now + 1, month := 1, day := 1\<rparr>)))])])
     \<and> (\<not> any_in MONTH_KEYWORDS (lower nl) \<and> \<not> any_in YEAR_KEYWORDS (lower nl)
          \<and> any_in WEEK_KEYWORDS (lower nl)
          \<and> add_days now (- weekday now) = Inr monday
          \<and> add_days (midnight monday) 7 = Inr next_monday \<longrightarrow>
        parse_date_specifics now nl columns date_override =
          Inr [(f, [(''$gte'', BDate (midnight monday)), (''$lt'', BDate next_monday)])])
     \<and> (\<not> any_in MONTH_KEYWORDS (lower nl) \<and> \<not> any_in YEAR_KEYWORDS (lower nl)
          \<and> \<not> any_in WEEK_KEYWORDS (lower nl)
          \<and> re_search True LAST_N_DAYS_RE nl = Some m \<and> py_int (m_group m 1) = Inr n
          \<and> abs n \<le> 999999999 \<and> add_days now (- n) = Inr start \<longrightarrow>
        parse_date_specifics now nl columns date_override =
          Inr [(f, [(''$gte'', BDate (midnight start)), (''$lt'', BDate now)])])
     \<and> parse_date_specifics now_example ''this month'' columns date_override =
          Inr [(f, [(''$gte'', BDate \<lparr>year = 2024, month = 3, day = 1, hour = 0, minute = 0,
                           second = 0, microsecond = 0, tzinfo = Some ''Asia/Kolkata''\<rparr>),
                    (''$lt'', BDate \<lparr>year = 2024, month = 4, day = 1, hour = 0, minute = 0,
                           second = 0, microsecond = 0, tzinfo = Some ''Asia/Kolkata''\<rparr>)])]
     \<and> parse_date_specifics now_example ''last 7 days'' columns date_override =
          Inr [(f, [(''$gte'', BDate \<lparr>year = 2024, month = 3, day = 8, hour = 0, minute = 0,
                           second = 0, microsecond = 0, tzinfo = Some ''Asia/Kolkata''\<rparr>),
                    (''$lt'', BDate \<lparr>year = 2024, month = 3, day = 15, hour = 10, minute = 0,
                           second = 0, microsecond = 0, tzinfo = Some ''Asia/Kolkata''\<rparr>)])]
     \<and> parse_date_specifics now_example ''this year'' columns date_override =
          Inr [(f, [(''$gte'', BDate \<lparr>year = 2024, month = 1, day = 1, hour = 0, minute = 0,
                           second = 0, microsecond = 0, tzinfo = Some ''Asia/Kolkata''\<rparr>),
                    (''$lt'', BDate \<lparr>year = 2025, month = 1, day = 1, hour = 0, minute = 0,
                           second = 0, microsecond = 0, tzinfo = Some ''Asia/Kolkata''\<rparr>)])]
     \<and> parse_date_specifics now_example ''this week'' columns date_override =
          Inr [(f, [(''$gte'', BDate \<lparr>year = 2024, month = 3, day = 11, hour = 0, minute = 0,
                           second = 0, microsecond = 0, tzinfo = Some ''Asia/Kolkata''\<rparr>),
                    (''$lt'', BDate \<lparr>year = 2024, month = 3, day = 18, hour = 0, minute = 0,
                           second = 0, microsecond = 0, tzinfo = Some ''Asia/Kolkata''\<rparr>)])]
     \<and> parse_date_specifics now_example ''last 30 days'' columns date_override =
          Inr [(f, [(''$gte'', BDate \<lparr>year = 2024, month = 2, day = 14, hour = 0, minute = 0,
                           second = 0, microsecond = 0, tzinfo = Some ''Asia/Kolkata''\<rparr>),
                    (''$lt'', BDate \<lparr>year = 2024, month = 3, day = 15, hour = 10, minute = 0,
                           second = 0, microsecond = 0, tzinfo = Some ''Asia/Kolkata''\<rparr>)])]"
proof -
  have r: "parse_date_specifics now nl columns date_override = relative_range now nl f"
    by (rule resolved_date_field [OF assms])
  have month: "any_in MONTH_KEYWORDS (lower nl) \<and> month now \<noteq> 12 \<longrightarrow>
        parse_date_specifics now nl columns date_override =
          Inr [(f, [(''$gte'', BDate (midnight (now\<lparr>day := 1\<rparr>))),
                    (''$lt'', BDate (midnight (now\<lparr>month := month now + 1, day := 1\<rparr>)))])]"
    by (simp add: r relative_range_def month_window_def date_range_def midnight_def Let_def)
  have december: "any_in MONTH_KEYWORDS (lower nl) \<and> month now = 12 \<and> 0 \<le> year now
          \<and> year now < 9999 \<longrightarrow>
        parse_date_specifics now nl columns date_override =
          Inr [(f, [(''$gte'', BDate (midnight (now\<lparr>day := 1\<rparr>))),
                    (''$lt'', BDate (midnight (now\<lparr>year := year now + 1, month := 1, day := 1\<rparr>)))])]"
    by (simp add: r relative_range_def month_window_def date_range_def midnight_def Let_def
          replace_year_def days_in_month_def)
  have year: "\<not> any_in MONTH_KEYWORDS (lower nl) \<and> any_in YEAR_KEYWORDS (lower nl)
          \<and> 0 \<le> year now \<and> year now < 9999 \<longrightarrow>
        parse_date_specifics now nl columns date_override =
          Inr [(f, [(''$gte'', BDate (midnight (now\<lparr>month := 1, day := 1\<rparr>))),
                    (''$lt'', BDate (midnight (now\<lparr>year := year now + 1, month := 1, day := 1\<rparr>)))])]"
    by (simp add: r relative_range_def year_window_def date_range_def midnight_def Let_def
          replace_year_def days_in_month_def)
  have week: "\<not> any_in MONTH_KEYWORDS (lower nl) \<and> \<not> any_in YEAR_KEYWORDS (lower nl)
          \<and> any_in WEEK_KEYWORDS (lower nl)
          \<and> add_days now (- weekday now) = Inr monday
          \<and> add_days (midnight monday) 7 = Inr next_monday \<longrightarrow>
        parse_date_specifics now nl columns date_override =
          Inr [(f, [(''$gte'', BDate (midnight monday)), (''$lt'', BDate next_monday)])]"
    by (simp add: r relative_range_def week_window_def date_range_def Let_def)
  have days: "\<not> any_in MONTH_KEYWORDS (lower nl) \<and> \<not> any_in YEAR_KEYWORDS (lower nl)
          \<and> \<not> any_in WEEK_KEYWORDS (lower nl)
          \<and> re_search True LAST_N_DAYS_RE nl = Some m \<and> py_int (m_group m 1) = Inr n
          \<and> abs n \<le> 999999999 \<and> add_days now (- n) = Inr start \<longrightarrow>
        parse_date_specifics now nl columns date_override =
          Inr [(f, [(''$gte'', BDate (midnight start)), (''$lt'', BDate now)])]"
    by (simp add: r relative_range_def days_window_def timedelta_days_def date_range_def Let_def)
  have fixed: "parse_date_specifics now_example t columns date_override =
                 relative_range now_example t f"
    if "re_search True BETWEEN_RE t = None" for t
    using that assms(1,2) by (simp add: parse_date_specifics_def explicit_range_def truthy_def)
  from month december year week days
    fixed [OF between_this_month] fixed [OF between_last_7_days] fixed [OF between_this_year]
    fixed [OF between_this_week] fixed [OF between_last_30_days]
  show ?thesis
    by (simp only: relative_this_month relative_last_7_days relative_this_year
          relative_this_week relative_last_30_days simp_thms)
qed


theorem temporal_windows_witness:
  "py_or None (detect_date_field [''Ref #'', ''Ship Date'']) = Some ''Ship Date''
   \<and> explicit_range ''last 30 days'' ''Ship Date'' = None
   \<and> re_search True LAST_N_DAYS_RE ''last 30 days'' =
        Some \<lparr>prev = Some CHR ''s'', rest = [], caps = [(1, ''30'')]\<rparr>
   \<and> py_int ''30'' = Inr 30
   \<and> add_days now_later (- 30) = Inr (now_later\<lparr>month := 3, day := 16\<rparr>)
   \<and> parse_date_specifics now_later ''last 30 days'' [''Ref #'', ''Ship Date''] None =
        Inr [(''Ship Date'',
              [(''$gte'', BDate (midnight (now_later\<lparr>month := 3, day := 16\<rparr>))),
               (''$lt'', BDate now_later)])]
   \<and> parse_date_specifics now_example ''this month'' [''Ref #'', ''Ship Date''] None =
        Inr [(''Ship Date'', [(''$gte'', BDate \<lparr>year = 2024, month = 3, day = 1, hour = 0, minute = 0,
                         second = 0, microsecond = 0, tzinfo = Some ''Asia/Kolkata''\<rparr>),
                  (''$lt'', BDate \<lparr>year = 2024, month = 4, day = 1, hour = 0, minute = 0,
                         second = 0, microsecond = 0, tzinfo = Some ''Asia/Kolkata''\<rparr>)])]
   \<and> parse_date_specifics now_example ''last 7 days'' [''Ref #'', ''Ship Date''] None =
        Inr [(''Ship Date'', [(''$gte'', BDate \<lparr>year = 2024, month = 3, day = 8, hour = 0, minute = 0,
                         second = 0, microsecond = 0, tzinfo = Some ''Asia/Kolkata''\<rparr>),
                  (''$lt'', BDate \<lparr>year = 2024, month = 3, day = 15, hour = 10, minute = 0,
                         second = 0, microsecond = 0, tzinfo = Some ''Asia/Kolkata''\<rparr>)])]"
proof -
  let ?m = "\<lparr>prev = Some CHR ''s'', rest = [], caps = [(1, ''30'')]\<rparr>"
  have f: "py_or None (detect_date_field [''Ref #'', ''Ship Date'']) = Some ''Ship Date''"
    by (simp add: chr_defs field_defs)
  have n: "''Ship Date'' \<noteq> []" by simp
  have e: "explicit_range ''last 30 days'' ''Ship Date'' = None"
    by (simp add: explicit_range_def between_last_30_days)
  have k: "\<not> any_in MONTH_KEYWORDS (lower ''last 30 days'')"
    "\<not> any_in YEAR_KEYWORDS (lower ''last 30 days'')"
    "\<not> any_in WEEK_KEYWORDS (lower ''last 30 days'')"
    by (simp_all add: chr_defs any_in_def MONTH_KEYWORDS_def YEAR_KEYWORDS_def WEEK_KEYWORDS_def)
  have m: "re_search True LAST_N_DAYS_RE ''last 30 days'' = Some ?m"
    by (simp add: chr_defs rx_defs LAST_N_DAYS_RE_def)
  have i: "py_int (m_group ?m 1) = Inr 30" "py_int ''30'' = Inr 30"
    by (simp_all add: py_int_def digits_val_def m_group_def code_ascii)
  have a: "add_days now_later (- 30) = Inr (now_later\<lparr>month := 3, day := 16\<rparr>)"
    by (simp add: date_defs now_later_def)
  from temporal_windows [OF f n e, of now_later _ _ ?m 30 "now_later\<lparr>month := 3, day := 16\<rparr>"]
    f e k m i a
  show ?thesis by simp
qed

text \<open>
  C9, as stated, fails in that \<open>now\<close> is no input: \<open>parse_date_specifics\<close> has the
  parameters text, columns and date override, and with the same three the month
  window is that of April when the clock is read in April.
\<close>

theorem windows_follow_the_clock:
  "parse_date_specifics now_later ''this month'' [''Ship Date''] None =
     Inr [(''Ship Date'',
           [(''$gte'', BDate \<lparr>year = 2024, month = 4, day = 1, hour = 0, minute = 0,
                  second = 0, microsecond = 0, tzinfo = Some ''Asia/Kolkata''\<rparr>),
            (''$lt'', BDate \<lparr>year = 2024, month = 5, day = 1, hour = 0, minute = 0,
                  second = 0, microsecond = 0, tzinfo = Some ''Asia/Kolkata''\<rparr>)])]
   \<and> parse_date_specifics now_example ''this month'' [''Ship Date''] None
       \<noteq> parse_date_specifics now_later ''this month'' [''Ship Date''] None"
  by (simp add: chr_defs rx_defs field_defs date_defs now_example_def now_later_def)

section \<open>The first stage of a pipeline\<close>

lemma top_query_agg:
  "top_query nl columns co q = Inr q' \<Longrightarrow> agg q = None \<Longrightarrow> agg q' = Some a \<Longrightarrow>
     agg_type a = ''top'' \<and> (\<exists>cf n. pipeline a = top_pipeline (filter_q q) cf n)"
  by (fastforce simp: top_query_def Let_def split: sum.splits if_splits)

lemma group_query_agg:
  "group_query nl columns co q = Inr q' \<Longrightarrow> agg q = None \<Longrightarrow> agg q' = Some a \<Longrightarrow>
     (agg_type a = ''group_cost'' \<and> (\<exists>gf cf. pipeline a = group_pipeline (filter_q q) gf cf))
     \<or> (agg_type a = ''top'' \<and> (\<exists>cf n. pipeline a = top_pipeline (filter_q q) cf n))"
  unfolding group_query_def Let_def
  by (fastforce split: if_splits dest: top_query_agg)

lemma sum_query_agg:
  "sum_query nl columns co q = Inr q' \<Longrightarrow> agg q = None \<Longrightarrow> agg q' = Some a \<Longrightarrow>
     (agg_type a = ''sum'' \<and> (\<exists>cf. pipeline a = sum_pipeline (filter_q q) cf))
     \<or> (agg_type a = ''group_cost'' \<and> (\<exists>gf cf. pipeline a = group_pipeline (filter_q q) gf cf))
     \<or> (agg_type a = ''top'' \<and> (\<exists>cf n. pipeline a = top_pipeline (filter_q q) cf n))"
  unfolding sum_query_def Let_def
  by (fastforce split: if_splits dest: group_query_agg)

lemma assemble_agg:
  "assemble nl columns co filt = Inr q \<Longrightarrow> agg q = Some a \<Longrightarrow>
     filter_q q = filt \<and>
     ((agg_type a = ''sum'' \<and> (\<exists>cf. pipeline a = sum_pipeline filt cf))
     \<or> (agg_type a = ''group_cost'' \<and> (\<exists>gf cf. pipeline a = group_pipeline filt gf cf))
     \<or> (agg_type a = ''top'' \<and> (\<exists>cf n. pipeline a = top_pipeline filt cf n)))"
proof -
  assume run: "assemble nl columns co filt = Inr q" and a: "agg q = Some a"
  let ?q0 = "\<lparr>filter_q = filt, limit = 100, is_count = False, agg = None\<rparr>"
  from run a have s: "sum_query nl columns co ?q0 = Inr q"
    by (auto simp: assemble_def Let_def split: if_splits)
  from sum_query_shape [OF s] sum_query_agg [OF s _ a] show ?thesis by simp
qed

text \<open>
  C4, as the code has it. An aggregation is of type sum, group_cost or top. The sum and
  group_cost pipelines always start with a \<^verbatim>\<open>$match\<close> on the filter, also when the filter
  is empty; the top pipeline starts with it only when the filter is not empty
  (\<^verbatim>\<open>if filt: pipeline.append({"$match": filt})\<close>), and otherwise with \<^verbatim>\<open>$addFields\<close>.
\<close>

theorem first_stage:
  assumes "build_query now nl_text columns date_override cost_override = Inr q"
      and "agg q = Some a"
  shows "(agg_type a = ''sum'' \<or> agg_type a = ''group_cost'' \<or> agg_type a = ''top'')
       \<and> (if agg_type a = ''top'' \<and> filter_q q = []
           then \<exists>cf n. pipeline a = [AddFields [(''__cost_num'', convert cf)],
                                      Sort [(''__cost_num'', - 1)], Limit n,
                                      Project [(''__cost_num'', 0)]]
           else \<exists>stages. pipeline a = Match (filter_q q) # stages)"
proof -
  from assms(1) obtain filt where
    "assemble (strip nl_text) columns cost_override filt = Inr q"
    by (auto simp: build_query_def Let_def split: sum.splits)
  from assemble_agg [OF this assms(2)] show ?thesis
    by (auto simp: sum_pipeline_def group_pipeline_def top_pipeline_def)
qed

theorem first_stage_witness:
  "build_query now_example ''total'' [''Cost''] None None =
     Inr \<lparr>filter_q = [], limit = 100, is_count = False,
          agg = Some \<lparr>agg_type = ''sum'',
                      pipeline = [Match [], Group None [(''total'', SumOf (Convert ''$Cost'' ''double'' 0 0))]]\<rparr>\<rparr>
   \<and> (\<exists>stages. [Match [], Group None [(''total'', SumOf (Convert ''$Cost'' ''double'' 0 0))]]
          = Match [] # stages)"
proof -
  have run: "build_query now_example ''total'' [''Cost''] None None =
     Inr \<lparr>filter_q = [], limit = 100, is_count = False,
          agg = Some \<lparr>agg_type = ''sum'',
                      pipeline = [Match [], Group None [(''total'', SumOf (Convert ''$Cost'' ''double'' 0 0))]]\<rparr>\<rparr>"
    by (simp add: eval_defs)
  from first_stage [OF run] run show ?thesis by simp
qed

text \<open>
  C4, as stated, fails for the top intent: \<^verbatim>\<open>top 5\<close> on the column \<^verbatim>\<open>Published Cost\<close> has
  an empty filter, and the pipeline starts with \<^verbatim>\<open>$addFields\<close>.
\<close>

theorem top_without_match:
  "build_query now_example ''top 5'' [''Published Cost''] None None =
     Inr \<lparr>filter_q = [], limit = 100, is_count = False,
          agg = Some \<lparr>agg_type = ''top'',
                      pipeline = [AddFields [(''__cost_num'', Convert ''$Published Cost'' ''double'' 0 0)],
                                  Sort [(''__cost_num'', - 1)], Limit 5,
                                  Project [(''__cost_num'', 0)]]\<rparr>\<rparr>
   \<and> hd [AddFields [(''__cost_num'', Convert ''$Published Cost'' ''double'' 0 0)],
          Sort [(''__cost_num'', - 1)], Limit 5, Project [(''__cost_num'', 0)]] \<noteq> Match []"
  by (simp add: eval_defs)

section \<open>A sum request without a cost field\<close>

lemma strip_total_cost: "strip ''total cost'' = ''total cost''"
  by (simp add: chr_defs)

lemma dates_total_cost: "parse_date_specifics now ''total cost'' columns date_override = Inr []"
  by (simp add: chr_defs rx_defs date_defs)

lemma predicates_total_cost: "predicates ''total cost'' columns cost_override [] = Inr []"
  by (simp add: chr_defs rx_defs pred_defs)

lemma signals_total_cost:
  "\<not> detect_count ''total cost''" "detect_sum_request ''total cost''"
  "detect_group_by ''total cost'' = None" "detect_top_n ''total cost'' = Inr None"
  by (simp_all add: chr_defs rx_defs COUNT_RE_def detect_count_def SUM_RE_def
        detect_sum_request_def GROUP_BY_RE_def detect_group_by_def TOP_RE_def detect_top_n_def)

lemma no_cost_no_agg:
  assumes "\<not> truthy (py_or cost_override (detect_cost_field columns))"
      and "\<not> detect_count nl"
  shows "assemble nl columns cost_override filt =
           (case detect_top_n nl of
              Inl e \<Rightarrow> Inl e
            | Inr n \<Rightarrow> Inr \<lparr>filter_q = filt, limit = 100, is_count = False, agg = None\<rparr>)"
  using assms
  by (simp add: assemble_def sum_query_def group_query_def top_query_def Let_def
        split: sum.splits)

text \<open>
  C7. When no cost override is given and no column resolves as a cost field, the text
  \<^verbatim>\<open>total cost\<close> yields the default description: empty filter, limit 100, no count, no
  aggregation, and no error. In general a text with a sum signal and no count signal
  then yields no aggregation and \<open>is_count = False\<close> on the filter built; the only other
  outcome is an exception from building the filter or from reading the number after
  \<^verbatim>\<open>top\<close>.
\<close>

theorem sum_without_cost_field:
  assumes "\<not> truthy cost_override" and "detect_cost_field columns = None"
  shows "build_query now ''total cost'' columns date_override cost_override =
           Inr \<lparr>filter_q = [], limit = 100, is_count = False, agg = None\<rparr>
       \<and> (detect_sum_request (strip nl_text) \<and> \<not> detect_count (strip nl_text) \<longrightarrow>
            build_query now nl_text columns date_override cost_override =
              (case build_filter now (strip nl_text) columns date_override cost_override of
                 Inl e \<Rightarrow> Inl e
               | Inr filt \<Rightarrow>
                   (case detect_top_n (strip nl_text) of
                      Inl e \<Rightarrow> Inl e
                    | Inr n \<Rightarrow> Inr \<lparr>filter_q = filt, limit = 100, is_count = False,
                                    agg = None\<rparr>)))"
proof -
  from assms have nc: "\<not> truthy (py_or cost_override (detect_cost_field columns))"
    by (simp add: py_or_def truthy_def)
  have "build_query now ''total cost'' columns date_override cost_override =
           Inr \<lparr>filter_q = [], limit = 100, is_count = False, agg = None\<rparr>"
    by (simp add: build_query_def build_filter_def strip_total_cost dates_total_cost
          predicates_total_cost no_cost_no_agg [OF nc] signals_total_cost)
  moreover have "detect_sum_request (strip nl_text) \<and> \<not> detect_count (strip nl_text) \<longrightarrow>
            build_query now nl_text columns date_override cost_override =
              (case build_filter now (strip nl_text) columns date_override cost_override of
                 Inl e \<Rightarrow> Inl e
               | Inr filt \<Rightarrow>
                   (case detect_top_n (strip nl_text) of
                      Inl e \<Rightarrow> Inl e
                    | Inr n \<Rightarrow> Inr \<lparr>filter_q = filt, limit = 100, is_count = False,
                                    agg = None\<rparr>))"
    by (simp add: build_query_def no_cost_no_agg [OF nc] split: sum.splits)
  ultimately show ?thesis by simp
qed

theorem sum_without_cost_field_witness:
  "\<not> truthy None \<and> detect_cost_field [''Ref #'', ''Ship Date''] = None
   \<and> detect_sum_request (strip ''total cost'')
   \<and> build_query now_example ''total cost'' [''Ref #'', ''Ship Date''] None None =
        Inr \<lparr>filter_q = [], limit = 100, is_count = False, agg = None\<rparr>"
proof -
  have t: "\<not> truthy None" by (simp add: truthy_def)
  have c: "detect_cost_field [''Ref #'', ''Ship Date''] = None"
    by (simp add: chr_defs field_defs)
  from sum_without_cost_field [OF t c, of now_example None] t c signals_total_cost(2)
  show ?thesis by (simp add: strip_total_cost)
qed

section \<open>The binding of the date field\<close>

lemma mixed_update: "\<not> is_date v \<Longrightarrow> mixed (AList.update k v d)"
  by (induction d) (auto simp: mixed_def)

lemma mixed_single: "\<not> is_date v \<Longrightarrow> mixed [(k, v)]"
  by (simp add: mixed_def)

lemma location_step_at:
  "map_of (location_step r keywords nl columns filt) f =
     (if f \<noteq> [] \<and> re_search True r nl \<noteq> None \<and> find_field columns keywords = Some f
      then Some (regex_pred (strip (m_group (the (re_search True r nl)) 1)))
      else map_of filt f)"
  by (cases "find_field columns keywords"; cases "re_search True r nl")
     (auto simp: location_step_def Let_def truthy_def update_conv')

lemma status_step_at:
  "map_of (status_step nl columns filt) f =
     (if f \<noteq> [] \<and> filter (\<lambda>s. re_search True (status_re s) nl \<noteq> None) STATUS_WORDS \<noteq> []
          \<and> detect_status_field columns = Some f
      then Some [(''$in'', BList (filter (\<lambda>s. re_search True (status_re s) nl \<noteq> None)
                                   STATUS_WORDS))]
      else map_of filt f)"
  by (cases "detect_status_field columns")
     (auto simp: status_step_def Let_def truthy_def update_conv')

lemma location_keeps_mixed:
  "mixed_at filt f \<Longrightarrow> mixed_at (location_step r keywords nl columns filt) f"
  by (simp add: mixed_at_def location_step_at regex_pred_def mixed_def)

lemma status_keeps_mixed:
  "mixed_at filt f \<Longrightarrow> mixed_at (status_step nl columns filt) f"
  by (simp add: mixed_at_def status_step_at mixed_def)

lemma comparison_at:
  assumes "comparison columns cost_override m filt = Inr filt'"
  shows "if f \<noteq> [] \<and> compare_column columns cost_override (m_group m 1) = Some f
         then mixed_at filt' f else map_of filt' f = map_of filt f"
  using assms
  by (cases "compare_column columns cost_override (m_group m 1)")
     (auto simp: comparison_def Let_def truthy_def set_inner_def setdefault_def mixed_at_def
        map_of_map_entry update_conv' mixed_update mixed_single
        split: sum.splits if_splits option.splits)

lemma comparison_keeps_mixed:
  "comparison columns cost_override m filt = Inr filt' \<Longrightarrow> mixed_at filt f \<Longrightarrow>
     mixed_at filt' f"
  using comparison_at [of columns cost_override m filt filt' f]
  by (auto simp: mixed_at_def split: if_splits)

lemma comparisons_keep_mixed:
  "comparisons columns cost_override ms filt = Inr filt' \<Longrightarrow> mixed_at filt f \<Longrightarrow>
     mixed_at filt' f"
proof (induction ms arbitrary: filt)
  case Nil
  then show ?case by simp
next
  case (Cons m ms)
  from Cons.prems(1) obtain filt1 where
    step: "comparison columns cost_override m filt = Inr filt1" and
    rest: "comparisons columns cost_override ms filt1 = Inr filt'"
    by (auto split: sum.splits)
  show ?case
    by (rule Cons.IH [OF rest comparison_keeps_mixed [OF step Cons.prems(2)]])
qed

lemma comparisons_elsewhere:
  "comparisons columns cost_override ms filt = Inr filt' \<Longrightarrow>
     \<not> (f \<noteq> [] \<and> list_ex (\<lambda>m. compare_column columns cost_override (m_group m 1) = Some f) ms) \<Longrightarrow>
       map_of filt' f = map_of filt f"
proof (induction ms arbitrary: filt)
  case Nil
  then show ?case by simp
next
  case (Cons m ms)
  from Cons.prems(1) obtain filt1 where
    step: "comparison columns cost_override m filt = Inr filt1" and
    rest: "comparisons columns cost_override ms filt1 = Inr filt'"
    by (auto split: sum.splits)
  from Cons.prems(2) comparison_at [OF step, of f] have "map_of filt1 f = map_of filt f"
    by (auto split: if_splits)
  moreover from Cons.prems(2) Cons.IH [OF rest] have "map_of filt' f = map_of filt1 f"
    by auto
  ultimately show ?case by simp
qed

lemma comparisons_here:
  "comparisons columns cost_override ms filt = Inr filt' \<Longrightarrow> f \<noteq> [] \<Longrightarrow>
     list_ex (\<lambda>m. compare_column columns cost_override (m_group m 1) = Some f) ms \<Longrightarrow>
       mixed_at filt' f"
proof (induction ms arbitrary: filt)
  case Nil
  then show ?case by simp
next
  case (Cons m ms)
  from Cons.prems(1) obtain filt1 where
    step: "comparison columns cost_override m filt = Inr filt1" and
    rest: "comparisons columns cost_override ms filt1 = Inr filt'"
    by (auto split: sum.splits)
  show ?case
  proof (cases "compare_column columns cost_override (m_group m 1) = Some f")
    case True
    with comparison_at [OF step, of f] Cons.prems(2) have "mixed_at filt1 f" by simp
    from comparisons_keep_mixed [OF rest this] show ?thesis .
  next
    case False
    with Cons.prems(3) have
      "list_ex (\<lambda>m. compare_column columns cost_override (m_group m 1) = Some f) ms"
      by simp
    from Cons.IH [OF rest Cons.prems(2) this] show ?thesis .
  qed
qed

lemma date_range_pure: "\<not> mixed_at (date_range f upper s e) g"
  by (simp add: mixed_at_def date_range_def mixed_def)

lemma empty_pure: "\<not> mixed_at [] g"
  by (simp add: mixed_at_def)

lemma relative_range_pure: "relative_range now nl f = Inr df \<Longrightarrow> \<not> mixed_at df g"
  by (auto simp: relative_range_def Let_def month_window_def year_window_def week_window_def
        days_window_def date_range_pure empty_pure split: if_splits sum.splits option.splits)

lemma explicit_range_pure: "explicit_range nl f = Some df \<Longrightarrow> \<not> mixed_at df g"
  by (auto simp: explicit_range_def date_range_pure split: sum.splits option.splits)

lemma date_filter_pure:
  "parse_date_specifics now nl columns date_override = Inr df \<Longrightarrow> \<not> mixed_at df g"
  by (auto simp: parse_date_specifics_def Let_def empty_pure
        dest: relative_range_pure explicit_range_pure split: if_splits option.splits)

text \<open>
  C5, as the code has it. The location, status and comparison rules resolve their
  columns by substring, with nothing that keeps them off the date field. For every
  description that \<open>build_query\<close> returns and every field: when no rule assigns to the
  field on this text, the field is bound in the final filter exactly as the temporal
  rule bound it (for the date field, to the time range and nothing else); when a rule
  does, the final binding of the field holds a value that is no date, so it is not the
  time range, which holds dates only.
\<close>

theorem date_field_binding:
  assumes "parse_date_specifics now (strip nl_text) columns date_override = Inr date_filter"
      and "build_query now nl_text columns date_override cost_override = Inr q"
  shows "(\<not> writes_to (strip nl_text) columns cost_override f \<longrightarrow>
            map_of (filter_q q) f = map_of date_filter f)
       \<and> (writes_to (strip nl_text) columns cost_override f \<longrightarrow>
            mixed_at (filter_q q) f \<and> map_of (filter_q q) f \<noteq> map_of date_filter f)
       \<and> \<not> mixed_at date_filter f"
proof -
  let ?nl = "strip nl_text"
  let ?f1 = "location_step FROM_RE [''origin'', ''from'', ''location''] ?nl columns date_filter"
  let ?f2 = "location_step TO_RE [''destination'', ''to'', ''to company'', ''to id''] ?nl columns ?f1"
  let ?f3 = "status_step ?nl columns ?f2"
  let ?ms = "re_finditer False COMPARE_RE ?nl"
  from assms obtain filt where
    p: "predicates ?nl columns cost_override date_filter = Inr filt" and
    a: "assemble ?nl columns cost_override filt = Inr q"
    by (auto simp: build_query_def build_filter_def Let_def split: sum.splits)
  from assemble_shape [OF a] have q: "filter_q q = filt" by simp
  from p have c: "comparisons columns cost_override ?ms ?f3 = Inr filt"
    by (simp add: predicates_def)
  have pure: "\<not> mixed_at date_filter f" by (rule date_filter_pure [OF assms(1)])
  have kept: "map_of filt f = map_of date_filter f"
    if "\<not> writes_to ?nl columns cost_override f"
  proof -
    from that have "map_of filt f = map_of ?f3 f"
      by (intro comparisons_elsewhere [OF c]) (auto simp: writes_to_def)
    also from that have "\<dots> = map_of ?f2 f"
      by (auto simp: status_step_at writes_to_def)
    also from that have "\<dots> = map_of ?f1 f"
      by (auto simp: location_step_at writes_to_def)
    also from that have "\<dots> = map_of date_filter f"
      by (auto simp: location_step_at writes_to_def)
    finally show ?thesis .
  qed
  have written: "mixed_at filt f" if w: "writes_to ?nl columns cost_override f"
  proof -
    from w have ne: "f \<noteq> []" by (simp add: writes_to_def)
    from w consider
      (cmp) "list_ex (\<lambda>m. compare_column columns cost_override (m_group m 1) = Some f) ?ms"
      | (status) "filter (\<lambda>s. re_search True (status_re s) ?nl \<noteq> None) STATUS_WORDS \<noteq> []"
          "detect_status_field columns = Some f"
      | (dest) "re_search True TO_RE ?nl \<noteq> None"
          "find_field columns [''destination'', ''to'', ''to company'', ''to id''] = Some f"
      | (origin) "re_search True FROM_RE ?nl \<noteq> None"
          "find_field columns [''origin'', ''from'', ''location''] = Some f"
      by (auto simp: writes_to_def)
    then show ?thesis
    proof cases
      case cmp
      from comparisons_here [OF c ne cmp] show ?thesis .
    next
      case status
      with ne have "mixed_at ?f3 f"
        by (simp add: mixed_at_def status_step_at mixed_def)
      from comparisons_keep_mixed [OF c this] show ?thesis .
    next
      case dest
      with ne have "mixed_at ?f2 f"
        by (simp add: mixed_at_def location_step_at regex_pred_def mixed_def)
      then have "mixed_at ?f3 f" by (rule status_keeps_mixed)
      from comparisons_keep_mixed [OF c this] show ?thesis .
    next
      case origin
      with ne have "mixed_at ?f1 f"
        by (simp add: mixed_at_def location_step_at regex_pred_def mixed_def)
      then have "mixed_at ?f2 f" by (rule location_keeps_mixed)
      then have "mixed_at ?f3 f" by (rule status_keeps_mixed)
      from comparisons_keep_mixed [OF c this] show ?thesis .
    qed
  qed
  have differs: "map_of filt f \<noteq> map_of date_filter f" if "mixed_at filt f"
    using that pure by (auto simp: mixed_at_def)
  from kept written differs pure q show ?thesis by simp
qed

theorem date_field_binding_witness:
  "\<not> writes_to (strip ''this month'') [''Date From''] None ''Date From''
   \<and> build_query now_example ''this month'' [''Date From''] None None =
       Inr \<lparr>filter_q = [(''Date From'', [(''$gte'', BDate \<lparr>year = 2024, month = 3, day = 1, hour = 0, minute = 0,
                 second = 0, microsecond = 0, tzinfo = Some ''Asia/Kolkata''\<rparr>),
           (''$lt'', BDate \<lparr>year = 2024, month = 4, day = 1, hour = 0, minute = 0,
                 second = 0, microsecond = 0, tzinfo = Some ''Asia/Kolkata''\<rparr>)])],
            limit = 100, is_count = False, agg = None\<rparr>
   \<and> writes_to (strip ''this month, date > 5'') [''Ship Date''] None ''Ship Date''
   \<and> build_query now_example ''this month, date > 5'' [''Ship Date''] None None =
       Inr \<lparr>filter_q =
              [(''Ship Date'',
                [(''$gte'', BDate \<lparr>year = 2024, month = 3, day = 1, hour = 0, minute = 0,
                       second = 0, microsecond = 0, tzinfo = Some ''Asia/Kolkata''\<rparr>),
                 (''$lt'', BDate \<lparr>year = 2024, month = 4, day = 1, hour = 0, minute = 0,
                       second = 0, microsecond = 0, tzinfo = Some ''Asia/Kolkata''\<rparr>),
                 (''$gt'', BNum 5)])],
            limit = 100, is_count = False, agg = None\<rparr>"
proof -
  have w1: "\<not> writes_to (strip ''this month'') [''Date From''] None ''Date From''"
    by (simp add: chr_defs rx_defs field_defs pred_defs writes_to_def)
  have d1: "parse_date_specifics now_example (strip ''this month'') [''Date From''] None =
              Inr [(''Date From'', [(''$gte'', BDate \<lparr>year = 2024, month = 3, day = 1, hour = 0, minute = 0,
                 second = 0, microsecond = 0, tzinfo = Some ''Asia/Kolkata''\<rparr>),
           (''$lt'', BDate \<lparr>year = 2024, month = 4, day = 1, hour = 0, minute = 0,
                 second = 0, microsecond = 0, tzinfo = Some ''Asia/Kolkata''\<rparr>)])]"
    by (simp add: chr_defs rx_defs field_defs date_defs now_example_def)
  have q1: "build_query now_example ''this month'' [''Date From''] None None =
       Inr \<lparr>filter_q = [(''Date From'', [(''$gte'', BDate \<lparr>year = 2024, month = 3, day = 1, hour = 0, minute = 0,
                 second = 0, microsecond = 0, tzinfo = Some ''Asia/Kolkata''\<rparr>),
           (''$lt'', BDate \<lparr>year = 2024, month = 4, day = 1, hour = 0, minute = 0,
                 second = 0, microsecond = 0, tzinfo = Some ''Asia/Kolkata''\<rparr>)])],
            limit = 100, is_count = False, agg = None\<rparr>"
    by (simp add: eval_defs now_example_def)
  have w2: "writes_to (strip ''this month, date > 5'') [''Ship Date''] None ''Ship Date''"
    by (simp add: chr_defs rx_defs field_defs pred_defs writes_to_def)
  have d2: "parse_date_specifics now_example (strip ''this month, date > 5'') [''Ship Date''] None =
              Inr [(''Ship Date'', [(''$gte'', BDate \<lparr>year = 2024, month = 3, day = 1, hour = 0, minute = 0,
                 second = 0, microsecond = 0, tzinfo = Some ''Asia/Kolkata''\<rparr>),
           (''$lt'', BDate \<lparr>year = 2024, month = 4, day = 1, hour = 0, minute = 0,
                 second = 0, microsecond = 0, tzinfo = Some ''Asia/Kolkata''\<rparr>)])]"
    by (simp add: chr_defs rx_defs field_defs date_defs now_example_def)
  have q2: "build_query now_example ''this month, date > 5'' [''Ship Date''] None None =
       Inr \<lparr>filter_q =
              [(''Ship Date'',
                [(''$gte'', BDate \<lparr>year = 2024, month = 3, day = 1, hour = 0, minute = 0,
                       second = 0, microsecond = 0, tzinfo = Some ''Asia/Kolkata''\<rparr>),
                 (''$lt'', BDate \<lparr>year = 2024, month = 4, day = 1, hour = 0, minute = 0,
                       second = 0, microsecond = 0, tzinfo = Some ''Asia/Kolkata''\<rparr>),
                 (''$gt'', BNum 5)])],
            limit = 100, is_count = False, agg = None\<rparr>"
    by (simp add: eval_defs now_example_def)
  from date_field_binding [OF d1 q1, of "''Date From''"]
    date_field_binding [OF d2 q2, of "''Ship Date''"] w1 w2 q1 q2
  show ?thesis by simp
qed

text \<open>
  C5, as stated, fails: with the single column \<^verbatim>\<open>Date From\<close> the date hint \<^verbatim>\<open>date\<close> and
  the origin keyword \<^verbatim>\<open>from\<close> resolve to the same column, and for the text
  \<^verbatim>\<open>this month from delhi\<close> the range of the month is replaced by the \<^verbatim>\<open>$regex\<close> predicate.
\<close>

theorem date_range_overwritten:
  "parse_date_specifics now_example ''this month from delhi'' [''Date From''] None =
     Inr [(''Date From'',
           [(''$gte'', BDate \<lparr>year = 2024, month = 3, day = 1, hour = 0, minute = 0,
                  second = 0, microsecond = 0, tzinfo = Some ''Asia/Kolkata''\<rparr>),
            (''$lt'', BDate \<lparr>year = 2024, month = 4, day = 1, hour = 0, minute = 0,
                  second = 0, microsecond = 0, tzinfo = Some ''Asia/Kolkata''\<rparr>)])]
   \<and> build_query now_example ''this month from delhi'' [''Date From''] None None =
       Inr \<lparr>filter_q = [(''Date From'', [(''$regex'', BStr ''delhi''), (''$options'', BStr ''i'')])],
            limit = 100, is_count = False, agg = None\<rparr>"
  by (simp add: eval_defs now_example_def)

section \<open>An explicit range that does not parse\<close>




section \<open>The clock\<close>

text \<open>
  C1, as the code has it. \<open>build_query\<close> has no parameter for the current time:
  \<open>parse_date_specifics\<close> reads the system clock. The description is a function of the
  text, the columns, the overrides and that reading; two readings give the same
  description whenever no date field resolves, or the explicit \<^verbatim>\<open>between\<close> range parses, or
  the text has none of the relative phrases.
\<close>

theorem clock_matters_only_for_relative_windows:
  assumes "\<not> truthy (py_or date_override (detect_date_field columns))
         \<or> explicit_range (strip nl_text) (the (py_or date_override (detect_date_field columns)))
             \<noteq> None
         \<or> (\<not> any_in MONTH_KEYWORDS (lower (strip nl_text))
            \<and> \<not> any_in YEAR_KEYWORDS (lower (strip nl_text))
            \<and> \<not> any_in WEEK_KEYWORDS (lower (strip nl_text))
            \<and> re_search True LAST_N_DAYS_RE (strip nl_text) = None
            \<and> re_search True LAST_7_DAYS_RE (strip nl_text) = None
            \<and> re_search True LAST_7_DAY_RE (strip nl_text) = None)"
  shows "build_query now1 nl_text columns date_override cost_override =
         build_query now2 nl_text columns date_override cost_override"
proof -
  from assms have "parse_date_specifics now1 (strip nl_text) columns date_override =
                   parse_date_specifics now2 (strip nl_text) columns date_override"
    by (auto simp: parse_date_specifics_def relative_range_def Let_def split: option.splits)
  then show ?thesis by (simp add: build_query_def build_filter_def)
qed

theorem clock_matters_only_for_relative_windows_witness:
  "explicit_range (strip ''between 2024-01-01 and 2024-02-29 this month'')
      (the (py_or None (detect_date_field [''Ship Date''])))
    = Some [(''Ship Date'',
             [(''$gte'', BDate \<lparr>year = 2024, month = 1, day = 1, hour = 0, minute = 0,
                    second = 0, microsecond = 0, tzinfo = None\<rparr>),
              (''$lte'', BDate \<lparr>year = 2024, month = 2, day = 29, hour = 0, minute = 0,
                    second = 0, microsecond = 0, tzinfo = None\<rparr>)])]
   \<and> build_query now_example ''between 2024-01-01 and 2024-02-29 this month'' [''Ship Date'']
        None None =
       build_query now_later ''between 2024-01-01 and 2024-02-29 this month'' [''Ship Date'']
        None None"
proof -
  have e: "explicit_range (strip ''between 2024-01-01 and 2024-02-29 this month'')
      (the (py_or None (detect_date_field [''Ship Date''])))
    = Some [(''Ship Date'',
             [(''$gte'', BDate \<lparr>year = 2024, month = 1, day = 1, hour = 0, minute = 0,
                    second = 0, microsecond = 0, tzinfo = None\<rparr>),
              (''$lte'', BDate \<lparr>year = 2024, month = 2, day = 29, hour = 0, minute = 0,
                    second = 0, microsecond = 0, tzinfo = None\<rparr>)])]"
    by (simp add: chr_defs rx_defs field_defs date_defs)
  then have "explicit_range (strip ''between 2024-01-01 and 2024-02-29 this month'')
      (the (py_or None (detect_date_field [''Ship Date'']))) \<noteq> None"
    by simp
  then have "build_query now_example ''between 2024-01-01 and 2024-02-29 this month''
        [''Ship Date''] None None =
       build_query now_later ''between 2024-01-01 and 2024-02-29 this month'' [''Ship Date'']
        None None"
    by (intro clock_matters_only_for_relative_windows) simp
  with e show ?thesis by simp
qed

text \<open>
  C1, as stated, fails: the same text, columns and overrides give two different
  descriptions when the clock is read in March and in April, and the caller of
  \<open>build_query\<close> has no argument to fix the reading.
\<close>

theorem clock_changes_result:
  "build_query now_example ''this month'' [''Ship Date''] None None
     \<noteq> build_query now_later ''this month'' [''Ship Date''] None None"
  by (simp add: eval_defs now_example_def now_later_def)

end
